theory Spec2Isabelle
  imports Complex_Main "HOL-Library.Multiset"
begin

section \<open>The JavaScript runtime functions the analyzers call\<close>

text \<open>
  Conventions of the embedding. A string is a list of code units below 256. A JavaScript
  number that holds a time value (milliseconds since the epoch) or a day count is an
  \<open>int\<close>; an amount, a rate or a score is a
  \<open>real\<close> (rounding and overflow to Infinity are not modelled); a number that may be
  \<open>NaN\<close> is an \<open>option\<close> with \<open>None\<close> for \<open>NaN\<close>. A \<open>Date\<close> is its time value, an
  invalid \<open>Date\<close> is \<open>None\<close>. A JavaScript object used as a dictionary with string keys is
  an association list in insertion order, which is the order \<open>Object.keys\<close>,
  \<open>Object.values\<close>, \<open>Object.entries\<close> and \<open>for .. in\<close> enumerate (no key of the
  analyzers is an array index).

  Three things come from the runtime and are parameters of the model: the string parser
  of \<open>new Date(string)\<close> (implementation-defined outside the ISO format),
  \<open>parseFloat\<close>, and the clock read by \<open>new Date()\<close>.
\<close>

record js_runtime =
  Date_parse :: "string \<Rightarrow> int option"
  parseFloat :: "string \<Rightarrow> real option"
  Date_now :: int

subsection \<open>Strings\<close>

text \<open>The white space and line terminators of ECMAScript among the code units below 256:
  space, tab, line feed, vertical tab, form feed, carriage return and the no-break space
  U+00A0. \<open>trim\<close> and \<open>parseInt\<close> strip them.\<close>

definition isWhiteSpace :: "char \<Rightarrow> bool" where
  "isWhiteSpace c =
     (c = CHR 0x20 \<or> c = CHR 0x09 \<or> c = CHR 0x0A \<or> c = CHR 0x0B \<or> c = CHR 0x0C \<or> c = CHR 0x0D
      \<or> c = CHR 0xA0)"

text \<open>\<open>String.prototype.trim\<close>.\<close>

definition trim :: "string \<Rightarrow> string" where
  "trim s = rev (dropWhile isWhiteSpace (rev (dropWhile isWhiteSpace s)))"

text \<open>\<open>s.includes(c)\<close> and \<open>s.split(c)\<close> for a one-character separator.\<close>

definition str_includes :: "string \<Rightarrow> char \<Rightarrow> bool" where
  "str_includes s c = List.member s c"

fun split_from :: "char \<Rightarrow> string \<Rightarrow> string \<Rightarrow> string list" where
  "split_from sep acc [] = [rev acc]"
| "split_from sep acc (c # cs) =
     (if c = sep then rev acc # split_from sep [] cs else split_from sep (c # acc) cs)"

definition str_split :: "string \<Rightarrow> char \<Rightarrow> string list" where
  "str_split s sep = split_from sep [] s"

text \<open>\<open>s.substring(a, b)\<close> for \<open>0 \<le> a \<le> b\<close>.\<close>

definition substring :: "string \<Rightarrow> nat \<Rightarrow> nat \<Rightarrow> string" where
  "substring s a b = take (b - a) (drop a s)"

text \<open>The default comparison of strings (\<open><\<close>, \<open>>=\<close>, and \<open>sort()\<close> with no
  comparator): code unit by code unit, a proper prefix first.\<close>

fun str_less :: "string \<Rightarrow> string \<Rightarrow> bool" where
  "str_less [] [] = False"
| "str_less [] (d # ds) = True"
| "str_less (c # cs) [] = False"
| "str_less (c # cs) (d # ds) =
     (if (of_char c :: nat) < of_char d then True
      else if (of_char d :: nat) < of_char c then False
      else str_less cs ds)"

definition str_ge :: "string \<Rightarrow> string \<Rightarrow> bool" where
  "str_ge a b = (\<not> str_less a b)"

subsection \<open>parseInt\<close>

definition digit_val :: "char \<Rightarrow> nat option" where
  "digit_val c =
     (let n = (of_char c :: nat) in
      if 48 \<le> n \<and> n \<le> 57 then Some (n - 48)
      else if 97 \<le> n \<and> n \<le> 122 then Some (n - 87)
      else if 65 \<le> n \<and> n \<le> 90 then Some (n - 55)
      else None)"

fun leading_digits :: "nat \<Rightarrow> string \<Rightarrow> nat list" where
  "leading_digits radix [] = []"
| "leading_digits radix (c # cs) =
     (case digit_val c of
        None \<Rightarrow> []
      | Some d \<Rightarrow> if d < radix then d # leading_digits radix cs else [])"

text \<open>\<open>parseInt(s)\<close> with no radix: leading white space, a sign, an optional
  \<open>0x\<close> prefix, then the longest prefix of digits; \<open>NaN\<close> when there is none.\<close>

definition parseInt :: "string \<Rightarrow> int option" where
  "parseInt s =
     (let t = dropWhile isWhiteSpace s;
          neg = (take 1 t = ''-'');
          u = (if take 1 t = ''-'' \<or> take 1 t = ''+'' then drop 1 t else t);
          hex = (take 2 u = ''0x'' \<or> take 2 u = ''0X'');
          radix = (if hex then 16 else 10);
          ds = leading_digits radix (if hex then drop 2 u else u);
          n = int (foldl (\<lambda>a d. a * radix + d) 0 ds)
      in if ds = [] then None else Some (if neg then - n else n))"

subsection \<open>Dates\<close>

definition msPerDay :: int where
  "msPerDay = 1000 * 60 * 60 * 24"

text \<open>The day number of the civil date \<open>y-m-d\<close> (month \<open>1..12\<close>) in the proleptic
  Gregorian calendar, day 0 being 1970-01-01, and its inverse: they compute ECMAScript's
  \<open>MakeDay\<close>, \<open>YearFromTime\<close> and \<open>MonthFromTime\<close>.\<close>

definition days_from_civil :: "int \<Rightarrow> int \<Rightarrow> int \<Rightarrow> int" where
  "days_from_civil y m d =
     (let y' = (if m \<le> 2 then y - 1 else y);
          era = y' div 400;
          yoe = y' - era * 400;
          doy = (153 * (if m > 2 then m - 3 else m + 9) + 2) div 5 + d - 1;
          doe = yoe * 365 + yoe div 4 - yoe div 100 + doy
      in era * 146097 + doe - 719468)"

definition civil_from_days :: "int \<Rightarrow> int \<times> int \<times> int" where
  "civil_from_days z =
     (let z' = z + 719468;
          era = z' div 146097;
          doe = z' - era * 146097;
          yoe = (doe - doe div 1460 + doe div 36524 - doe div 146096) div 365;
          doy = doe - (365 * yoe + yoe div 4 - yoe div 100);
          mp = (5 * doy + 2) div 153;
          d = doy - (153 * mp + 2) div 5 + 1;
          m = (if mp < 10 then mp + 3 else mp - 9);
          y = yoe + era * 400
      in (if m \<le> 2 then y + 1 else y, m, d))"

definition MakeDay :: "int \<Rightarrow> int \<Rightarrow> int \<Rightarrow> int" where
  "MakeDay year month date =
     days_from_civil (year + month div 12) (month mod 12 + 1) 1 + date - 1"

definition MakeTime :: "int \<Rightarrow> int \<Rightarrow> int \<Rightarrow> int \<Rightarrow> int" where
  "MakeTime h mi s ms = h * 3600000 + mi * 60000 + s * 1000 + ms"

definition TimeClip :: "int \<Rightarrow> int option" where
  "TimeClip t = (if \<bar>t\<bar> > 8640000000000000 then None else Some t)"

text \<open>\<open>Date.UTC(year, month, date, h, mi, s, ms)\<close>: \<open>NaN\<close> when an argument is, and a
  year from 0 to 99 means 1900 + year.\<close>

definition Date_UTC ::
  "int option \<Rightarrow> int option \<Rightarrow> int option \<Rightarrow> int \<Rightarrow> int \<Rightarrow> int \<Rightarrow> int \<Rightarrow> int option" where
  "Date_UTC year month date h mi s ms =
     (case (year, month, date) of
        (Some y, Some m, Some d) \<Rightarrow>
          TimeClip (MakeDay (if 0 \<le> y \<and> y \<le> 99 then 1900 + y else y) m d * msPerDay
                    + MakeTime h mi s ms)
      | _ \<Rightarrow> None)"

definition Day :: "int \<Rightarrow> int" where
  "Day t = t div msPerDay"

definition getUTCFullYear :: "int \<Rightarrow> int" where
  "getUTCFullYear t = fst (civil_from_days (Day t))"

text \<open>\<open>getUTCMonth\<close> counts from 0.\<close>

definition getUTCMonth :: "int \<Rightarrow> int" where
  "getUTCMonth t = fst (snd (civil_from_days (Day t))) - 1"

fun pad :: "nat \<Rightarrow> nat \<Rightarrow> string" where
  "pad 0 n = []"
| "pad (Suc k) n = pad k (n div 10) @ [char_of (48 + n mod 10)]"

text \<open>\<open>toISOString().substring(0, 7)\<close>, the month key \<open>YYYY-MM\<close>; a year outside
  0..9999 prints with a sign and six digits, of which the key keeps the sign and the
  digits.\<close>

definition monthKeyOf :: "int \<Rightarrow> string" where
  "monthKeyOf t =
     (let y = getUTCFullYear t in
      if 0 \<le> y \<and> y \<le> 9999 then pad 4 (nat y) @ ''-'' @ pad 2 (nat (getUTCMonth t + 1))
      else (if y < 0 then ''-'' else ''+'') @ pad 6 (nat \<bar>y\<bar>))"

text \<open>The end of the month of a date: \<open>Date.UTC(y, m + 1, 0, 23, 59, 59, 999)\<close>.\<close>

definition lastInstantOfMonth :: "int \<Rightarrow> int \<Rightarrow> int option" where
  "lastInstantOfMonth y m = Date_UTC (Some y) (Some (m + 1)) (Some 0) 23 59 59 999"

text \<open>\<open>Math.ceil(a / b)\<close> for integers \<open>a\<close> and \<open>b > 0\<close>.\<close>

definition ceil_div :: "int \<Rightarrow> int \<Rightarrow> int" where
  "ceil_div a b = - ((- a) div b)"

text \<open>\<open>Date.UTC(y, m + 1, 0, 23, 59, 59, 999)\<close>, the last millisecond of month \<open>m\<close>
  (counted from 0) of year \<open>y\<close>. The analyzers reach it with \<open>y = 2025\<close> only, where the
  time value is in range and \<open>y\<close> is not a two-digit year.\<close>

definition endOfMonth :: "int \<Rightarrow> int \<Rightarrow> int" where
  "endOfMonth y m = MakeDay y (m + 1) 0 * msPerDay + MakeTime 23 59 59 999"

section \<open>Types (types/new-pipeline)\<close>

text \<open>A field of a parsed CSV row is a string, or \<open>undefined\<close> when the line has no such
  column.\<close>

record RawCSVRow =
  snapShotTime :: "string option"
  date :: "string option"
  totalAmount :: "string option"
  stage :: "string option"

text \<open>\<open>weightedAmount\<close> is the product of the amount and the stage's weight, \<open>None\<close> when
  the product is \<open>NaN\<close>.\<close>

record ProcessedRow =
  snapshotDate :: int
  closingMonth :: int
  daysBeforeClose :: int
  amount :: real
  pr_stage :: string
  weightedAmount :: "real option"

record AggregatedSnapshot =
  as_snapshotDate :: int
  as_daysBeforeClose :: int
  rawPipeline :: real
  weightedPipeline :: real

type_synonym MonthData = "(string \<times> AggregatedSnapshot list) list"

record DailyGrowthRate =
  daysBefore :: int
  rate :: real

record NewTrajectoryPoint =
  tp_snapshotDate :: int
  tp_daysBeforeClose :: int
  tp_weightedAmount :: real
  tp_rawAmount :: real

record SimilarityPoint =
  days_before :: int
  current_value :: real
  historical_value :: real
  pct_difference :: real

record NewTrajectoryComparison =
  historical_month :: string
  avg_pct_diff :: real
  variance :: real
  similarities :: "SimilarityPoint list"
  historical_closing :: real
  score :: real

text \<open>\<open>totalProjectedGrowth\<close> is a quotient by the latest weighted value: \<open>None\<close> when that
  value is 0 and the quotient is not a finite number.\<close>

record NewAnalysisResult =
  month :: string
  currentRawValue :: real
  currentWeightedValue :: real
  daysToClose :: int
  totalProjectedGrowth :: "real option"
  forecast :: "real option"
  trajectory :: "NewTrajectoryPoint list"
  forecastTrajectory :: "NewTrajectoryPoint list"
  similarMonths :: "NewTrajectoryComparison list"

record NewBacktestResult =
  bt_month :: string
  bt_daysBefore :: int
  prediction :: real
  actual :: real

text \<open>The anonymous object type \<open>{ raw: number, weighted: number }\<close>.\<close>

record Totals =
  raw :: real
  weighted :: real

text \<open>\<open>declinePercentageWeighted\<close> is a quotient by the peak's weighted value: \<open>None\<close>
  when that value is 0.\<close>

record NewPeakAnalysis =
  pk_month :: string
  peakDate :: int
  peakRawValue :: real
  peakWeightedValue :: real
  daysBeforeClosing :: int
  actualClosingRawValue :: real
  actualClosingWeightedValue :: real
  declinePercentageRaw :: real
  declinePercentageWeighted :: "real option"

section \<open>NewPipelineTrajectoryAnalyzer\<close>

text \<open>The property read \<open>STAGE_WEIGHTS[stage]\<close>. The object has the four weights as its own
  properties; for a name that every object inherits from \<open>Object.prototype\<close> the read
  returns the inherited function (for \<open>__proto__\<close> the prototype object), which is not
  nullish, so that \<open>?? 0\<close> keeps it and the product with the amount is \<open>NaN\<close>; for any
  other name it returns \<open>undefined\<close> (\<open>None\<close>).\<close>

datatype property = Number real | Inherited

definition inheritedNames :: "string list" where
  "inheritedNames =
     [''constructor'', ''hasOwnProperty'', ''isPrototypeOf'', ''propertyIsEnumerable'',
      ''toLocaleString'', ''toString'', ''valueOf'', ''__proto__'', ''__defineGetter__'',
      ''__defineSetter__'', ''__lookupGetter__'', ''__lookupSetter__'']"

definition STAGE_WEIGHTS :: "string \<Rightarrow> property option" where
  "STAGE_WEIGHTS k =
     (if k = ''FUNDED'' then Some (Number 1.0)
      else if k = ''READY_FOR_FUNDING'' then Some (Number 0.95)
      else if k = ''CONDITION_FULFILLMENT'' then Some (Number 0.75)
      else if k = ''APPROVED'' then Some (Number 0.60)
      else if k \<in> set inheritedNames then Some Inherited
      else None)"

text \<open>\<open>amount * (STAGE_WEIGHTS[stage] ?? 0)\<close>.\<close>

definition weightedAmountOf :: "real \<Rightarrow> string \<Rightarrow> real option" where
  "weightedAmountOf amt stg =
     (case STAGE_WEIGHTS stg of
        None \<Rightarrow> Some (amt * 0)
      | Some (Number weight) \<Rightarrow> Some (amt * weight)
      | Some Inherited \<Rightarrow> None)"

record analyzer =
  allData :: "ProcessedRow list"
  aggregatedDataByMonth :: MonthData
  allHistoricalMonths :: "string list"
  currentMonths :: "string list"
  actualClosingValues :: "(string \<times> Totals) list"
  forecastGrowthRates :: "DailyGrowthRate list"
  medianGrowthRates :: "DailyGrowthRate list"
  peakData :: "NewPeakAnalysis list"

text \<open>The field initialisers of the class: the state of \<open>new NewPipelineTrajectoryAnalyzer()\<close>.\<close>

definition new_analyzer :: analyzer where
  "new_analyzer =
     \<lparr>allData = [], aggregatedDataByMonth = [], allHistoricalMonths = [], currentMonths = [],
      actualClosingValues = [], forecastGrowthRates = [], medianGrowthRates = [],
      peakData = []\<rparr>"

definition hasData :: "analyzer \<Rightarrow> bool" where
  "hasData s = (length (allData s) > 0)"

subsection \<open>processRawData\<close>

text \<open>The closing date of a row: three parts separated by \<open>/\<close> (or by \<open>-\<close> when the text
  has no \<open>/\<close>) are read as month, day, year; any other text goes to the \<open>Date\<close> parser.\<close>

definition closingMonthDateOf :: "js_runtime \<Rightarrow> string \<Rightarrow> int option" where
  "closingMonthDateOf rt dateStr =
     (let dateParts = (if str_includes dateStr CHR ''/'' then str_split dateStr CHR ''/''
                       else str_split dateStr CHR ''-'')
      in if length dateParts = 3
         then Date_UTC (parseInt (dateParts ! 2))
                (map_option (\<lambda>m. m - 1) (parseInt (dateParts ! 0)))
                (parseInt (dateParts ! 1)) 0 0 0 0
         else Date_parse rt dateStr)"

definition daysBeforeCloseOf :: "int \<Rightarrow> int \<Rightarrow> int" where
  "daysBeforeCloseOf closingMonthDate snapshot =
     ceil_div (endOfMonth (getUTCFullYear closingMonthDate) (getUTCMonth closingMonthDate)
               - snapshot) msPerDay"

text \<open>The callback of \<open>rawData.map\<close>: \<open>None\<close> is the \<open>null\<close> of a dropped row.\<close>

definition parseRow :: "js_runtime \<Rightarrow> RawCSVRow \<Rightarrow> ProcessedRow option" where
  "parseRow rt row =
     (case (snapShotTime row, date row, totalAmount row, stage row) of
        (Some st, Some dt, Some ta, Some sg) \<Rightarrow>
          if st = [] \<or> dt = [] \<or> ta = [] \<or> sg = [] then None
          else
            (case Date_parse rt (trim st) of
               None \<Rightarrow> None
             | Some snapshot \<Rightarrow>
                 (case closingMonthDateOf rt (trim dt) of
                    None \<Rightarrow> None
                  | Some closingMonthDate \<Rightarrow>
                      if getUTCFullYear closingMonthDate = 2025 then
                        (let dbc = daysBeforeCloseOf closingMonthDate snapshot in
                         if dbc > 89 \<or> dbc < -5 then None
                         else
                           (case parseFloat rt (filter (\<lambda>c. \<not> (c = CHR '','' \<or> c = CHR ''$'')) ta) of
                              None \<Rightarrow> None
                            | Some amt \<Rightarrow>
                                (let stg = trim sg
                                 in Some \<lparr>snapshotDate = snapshot,
                                           closingMonth = closingMonthDate,
                                           daysBeforeClose = dbc,
                                           amount = amt,
                                           pr_stage = stg,
                                           weightedAmount = weightedAmountOf amt stg\<rparr>)))
                      else None))
      | _ \<Rightarrow> None)"

definition processRawData :: "js_runtime \<Rightarrow> RawCSVRow list \<Rightarrow> analyzer \<Rightarrow> analyzer" where
  "processRawData rt rawData s = s\<lparr>allData := List.map_filter (parseRow rt) rawData\<rparr>"

subsection \<open>Objects as dictionaries, sorting\<close>

text \<open>\<open>obj[k] = v\<close>: an existing key keeps its place, a new key goes last. \<open>obj[k]\<close> is
  \<open>map_of obj k\<close>, with \<open>None\<close> for \<open>undefined\<close>.\<close>

fun obj_set :: "'k \<Rightarrow> 'v \<Rightarrow> ('k \<times> 'v) list \<Rightarrow> ('k \<times> 'v) list" where
  "obj_set k v [] = [(k, v)]"
| "obj_set k v ((k', v') # kvs) =
     (if k' = k then (k, v) # kvs else (k', v') # obj_set k v kvs)"

text \<open>\<open>Array.prototype.sort\<close> is stable. \<open>sort_by gt\<close> is the stable insertion sort for
  a comparator, \<open>gt a b\<close> standing for \<open>comparator(a, b) > 0\<close>; a comparator that returns
  \<open>NaN\<close> counts as returning 0. (For a comparator that is not a consistent order the
  language fixes no result; the analyzers' comparators are differences of keys.) Sorting
  numbers by \<open>(a, b) => a - b\<close> is \<open>sort\<close>, and sorting by a numeric key is \<open>sort_key\<close>,
  the same stable insertion sort.\<close>

fun insert_by :: "('a \<Rightarrow> 'a \<Rightarrow> bool) \<Rightarrow> 'a \<Rightarrow> 'a list \<Rightarrow> 'a list" where
  "insert_by gt x [] = [x]"
| "insert_by gt x (y # ys) = (if gt x y then y # insert_by gt x ys else x # y # ys)"

definition sort_by :: "('a \<Rightarrow> 'a \<Rightarrow> bool) \<Rightarrow> 'a list \<Rightarrow> 'a list" where
  "sort_by gt xs = foldr (insert_by gt) xs []"

text \<open>The comparator \<open>(a, b) => new Date(a).getTime() - new Date(b).getTime()\<close> on month
  keys.\<close>

definition laterMonth :: "js_runtime \<Rightarrow> string \<Rightarrow> string \<Rightarrow> bool" where
  "laterMonth rt a b =
     (case (Date_parse rt a, Date_parse rt b) of
        (Some x, Some y) \<Rightarrow> x - y > 0
      | _ \<Rightarrow> False)"

text \<open>\<open>xs.reduce(f)\<close> with no initial value, on a non-empty array.\<close>

definition reduce1 :: "('a \<Rightarrow> 'a \<Rightarrow> 'a) \<Rightarrow> 'a \<Rightarrow> 'a list \<Rightarrow> 'a" where
  "reduce1 f x xs = foldl f x xs"

subsection \<open>aggregateDataByMonth\<close>

text \<open>\<open>RangeError\<close> is the exception of \<open>toISOString\<close> on an invalid date. \<open>NotANumber\<close>
  is not an exception: it marks a load with a row whose weighted amount is \<open>NaN\<close>, where
  the code goes on computing with \<open>NaN\<close> and the embedding, whose sums are real numbers,
  gives no state.\<close>

datatype error = RangeError | NotANumber

text \<open>The rows with their weighted amounts, when these are all numbers.\<close>

definition numericRows :: "ProcessedRow list \<Rightarrow> (ProcessedRow \<times> real) list option" where
  "numericRows rows = map_option (zip rows) (those (map weightedAmount rows))"

text \<open>The keys \<open>snapshotKey|monthKey\<close> and \<open>snapshotDayKey|monthKey\<close> are pairs here: the
  snapshot's ISO string stands for its time value (\<open>new Date(d.toISOString())\<close> is \<open>d\<close>
  again), and its date part for its day number.\<close>

definition addRow ::
  "ProcessedRow \<times> real \<Rightarrow> ((int \<times> string) \<times> Totals) list
     \<Rightarrow> ((int \<times> string) \<times> Totals) list" where
  "addRow rw d =
     (let row = fst rw;
          key = (snapshotDate row, monthKeyOf (closingMonth row));
          cur = (case map_of d key of None \<Rightarrow> \<lparr>raw = 0, weighted = 0\<rparr> | Some v \<Rightarrow> v)
      in obj_set key \<lparr>raw = raw cur + amount row,
                      weighted = weighted cur + snd rw\<rparr> d)"

record DailyAggregate =
  da_raw :: real
  da_weighted :: real
  da_snapshotDate :: int
  da_closingMonth :: "int option"

definition addSnapshot ::
  "js_runtime \<Rightarrow> (int \<times> string) \<times> Totals \<Rightarrow> ((int \<times> string) \<times> DailyAggregate) list
     \<Rightarrow> ((int \<times> string) \<times> DailyAggregate) list" where
  "addSnapshot rt entry d =
     (let snapshot = fst (fst entry);
          monthKey = snd (fst entry);
          dailyKey = (Day snapshot, monthKey);
          newer = (case map_of d dailyKey of
                     None \<Rightarrow> True
                   | Some a \<Rightarrow> snapshot > da_snapshotDate a)
      in if newer
         then obj_set dailyKey
                \<lparr>da_raw = raw (snd entry), da_weighted = weighted (snd entry),
                 da_snapshotDate = snapshot,
                 da_closingMonth = Date_parse rt (monthKey @ ''-01T00:00:00.000Z'')\<rparr> d
         else d)"

text \<open>The third loop appends one point to the month's array; \<open>toISOString\<close> throws a
  \<open>RangeError\<close> on an invalid date.\<close>

definition pushAggregate :: "DailyAggregate \<Rightarrow> MonthData \<Rightarrow> error + MonthData" where
  "pushAggregate a m =
     (case da_closingMonth a of
        None \<Rightarrow> Inl RangeError
      | Some cm \<Rightarrow>
          (let monthKey = monthKeyOf cm;
               lastDayOfMonth = endOfMonth (getUTCFullYear cm) (getUTCMonth cm);
               dbc = ceil_div (lastDayOfMonth - da_snapshotDate a) msPerDay;
               old = (case map_of m monthKey of None \<Rightarrow> [] | Some ps \<Rightarrow> ps)
           in Inr (obj_set monthKey
                     (old @ [\<lparr>as_snapshotDate = da_snapshotDate a, as_daysBeforeClose = dbc,
                              rawPipeline = da_raw a, weightedPipeline = da_weighted a\<rparr>]) m)))"

fun pushAggregates :: "DailyAggregate list \<Rightarrow> MonthData \<Rightarrow> error + MonthData" where
  "pushAggregates [] m = Inr m"
| "pushAggregates (a # as) m =
     (case pushAggregate a m of Inl e \<Rightarrow> Inl e | Inr m' \<Rightarrow> pushAggregates as m')"

text \<open>The points are appended to \<open>this.aggregatedDataByMonth\<close> as it stands: the method
  does not empty it first.\<close>

definition aggregateDataByMonth :: "js_runtime \<Rightarrow> analyzer \<Rightarrow> error + analyzer" where
  "aggregateDataByMonth rt s =
     (case numericRows (allData s) of
        None \<Rightarrow> Inl NotANumber
      | Some rows \<Rightarrow>
          (let dataBySnapshotAndMonth = fold addRow rows [];
               dailyAggregates = fold (addSnapshot rt) dataBySnapshotAndMonth []
           in case pushAggregates (map snd dailyAggregates) (aggregatedDataByMonth s) of
                Inl e \<Rightarrow> Inl e
              | Inr m \<Rightarrow>
                  Inr (s\<lparr>aggregatedDataByMonth :=
                            map (\<lambda>(k, ps). (k, sort_key (\<lambda>p. - as_daysBeforeClose p) ps)) m\<rparr>)))"

subsection \<open>calculateActualClosingValues and categorizeMonths\<close>

definition closerToClose :: "AggregatedSnapshot \<Rightarrow> AggregatedSnapshot \<Rightarrow> AggregatedSnapshot" where
  "closerToClose closest point =
     (if \<bar>as_daysBeforeClose point\<bar> < \<bar>as_daysBeforeClose closest\<bar> then point else closest)"

definition setClosingValue ::
  "MonthData \<Rightarrow> string \<Rightarrow> (string \<times> Totals) list \<Rightarrow> (string \<times> Totals) list" where
  "setClosingValue agg monthKey acv =
     (case map_of agg monthKey of
        None \<Rightarrow> acv
      | Some [] \<Rightarrow> acv
      | Some (p # ps) \<Rightarrow>
          (let closingValuePoint = reduce1 closerToClose p ps in
           if \<bar>as_daysBeforeClose closingValuePoint\<bar> \<le> 5
           then obj_set monthKey \<lparr>raw = rawPipeline closingValuePoint,
                                   weighted = weightedPipeline closingValuePoint\<rparr> acv
           else acv))"

text \<open>The entries are written into \<open>this.actualClosingValues\<close> as it stands.\<close>

definition calculateActualClosingValues :: "analyzer \<Rightarrow> analyzer" where
  "calculateActualClosingValues s =
     s\<lparr>actualClosingValues :=
         fold (setClosingValue (aggregatedDataByMonth s)) (map fst (aggregatedDataByMonth s))
           (actualClosingValues s)\<rparr>"

text \<open>The test of \<open>categorizeMonths\<close>: the month has closed before now and has an actual
  closing value with a positive weighted value. Note \<open>Date.UTC(y, m, 0)\<close> with the month
  number \<open>m\<close> of the key, the last day of that month.\<close>

definition isHistorical :: "js_runtime \<Rightarrow> (string \<times> Totals) list \<Rightarrow> string \<Rightarrow> bool" where
  "isHistorical rt acv monthKey =
     (case Date_UTC (parseInt (substring monthKey 0 4)) (parseInt (substring monthKey 5 7))
             (Some 0) 0 0 0 0 of
        None \<Rightarrow> False
      | Some closingDate \<Rightarrow>
          closingDate < Date_now rt \<and>
          (case map_of acv monthKey of None \<Rightarrow> False | Some v \<Rightarrow> weighted v > 0))"

definition categorizeMonths :: "js_runtime \<Rightarrow> analyzer \<Rightarrow> analyzer" where
  "categorizeMonths rt s =
     (let allMonths = sort_by (\<lambda>a b. str_less b a) (map fst (aggregatedDataByMonth s));
          hist = filter (isHistorical rt (actualClosingValues s)) allMonths
      in s\<lparr>allHistoricalMonths := hist,
           currentMonths :=
             sort_by (laterMonth rt) (filter (\<lambda>k. \<not> List.member hist k) allMonths)\<rparr>)"

subsection \<open>calculateGrowthRates\<close>

text \<open>\<open>Math.pow(x, y)\<close> on real numbers: \<open>NaN\<close> for a negative base with an exponent that
  is not an integer. (A zero base with a negative exponent gives Infinity, which the model
  does not have; the analyzers call \<open>Math.pow\<close> with positive exponents only.)\<close>

definition Math_pow :: "real \<Rightarrow> real \<Rightarrow> real option" where
  "Math_pow x y =
     (if y = 0 then Some 1
      else if x > 0 then Some (x powr y)
      else if x = 0 then (if y > 0 then Some 0 else None)
      else if of_int \<lfloor>y\<rfloor> = y then Some (power_int x \<lfloor>y\<rfloor>)
      else None)"

text \<open>\<open>dailyRates\<close>, the dictionary from a day to the growth rates attributed to it.\<close>

type_synonym dailyRates = "int \<rightharpoonup> real list"

text \<open>The rates attributed to a day so far, none when the day has no entry.\<close>

definition ratesOn :: "dailyRates \<Rightarrow> int \<Rightarrow> real list" where
  "ratesOn dr day = (case dr day of None \<Rightarrow> [] | Some rs \<Rightarrow> rs)"

definition pushRate :: "real \<Rightarrow> int \<Rightarrow> dailyRates \<Rightarrow> dailyRates" where
  "pushRate growth day dr =
     (if day \<ge> 0 \<and> day \<le> 89
      then dr(day \<mapsto> ratesOn dr day @ [growth])
      else dr)"

text \<open>The body of the loop over consecutive points \<open>previous\<close>, \<open>current\<close> of a month.\<close>

definition pairRates :: "AggregatedSnapshot \<Rightarrow> AggregatedSnapshot \<Rightarrow> dailyRates \<Rightarrow> dailyRates" where
  "pairRates previous current dr =
     (let daysDiff = as_daysBeforeClose previous - as_daysBeforeClose current in
      if daysDiff > 0 \<and> daysDiff \<le> 3 then
        if weightedPipeline previous > 0 then
          (case Math_pow (weightedPipeline current / weightedPipeline previous)
                  (1 / real_of_int daysDiff) of
             None \<Rightarrow> dr
           | Some p \<Rightarrow>
               (let growth = p - 1 in
                if growth > - 0.5 \<and> growth < 0.5
                then fold (\<lambda>d. pushRate growth (as_daysBeforeClose current + d))
                       [0..daysDiff - 1] dr
                else dr))
        else dr
      else dr)"

fun monthRates :: "AggregatedSnapshot list \<Rightarrow> dailyRates \<Rightarrow> dailyRates" where
  "monthRates (previous # current # rest) dr =
     monthRates (current # rest) (pairRates previous current dr)"
| "monthRates [p] dr = dr"
| "monthRates [] dr = dr"

definition addMonthRates :: "MonthData \<Rightarrow> string \<Rightarrow> dailyRates \<Rightarrow> dailyRates" where
  "addMonthRates agg monthKey dr =
     (case map_of agg monthKey of None \<Rightarrow> dr | Some monthData \<Rightarrow> monthRates monthData dr)"

definition median :: "real list \<Rightarrow> real" where
  "median rates =
     (let sortedRates = sort rates;
          mid = length sortedRates div 2
      in if length sortedRates mod 2 \<noteq> 0 then sortedRates ! mid
         else (sortedRates ! (mid - 1) + sortedRates ! mid) / 2)"

definition medianRate :: "dailyRates \<Rightarrow> int \<Rightarrow> DailyGrowthRate" where
  "medianRate dr day =
     (case dr day of
        None \<Rightarrow> \<lparr>daysBefore = day, rate = 0\<rparr>
      | Some rs \<Rightarrow>
          if length rs > 0 then \<lparr>daysBefore = day, rate = median rs\<rparr>
          else \<lparr>daysBefore = day, rate = 0\<rparr>)"

definition medianRatesOf :: "MonthData \<Rightarrow> string list \<Rightarrow> DailyGrowthRate list" where
  "medianRatesOf agg months =
     (let dr = fold (addMonthRates agg) months Map.empty
      in sort_key daysBefore (map (medianRate dr) [0..89]))"

definition smoothedRate :: "DailyGrowthRate list \<Rightarrow> nat \<Rightarrow> DailyGrowthRate" where
  "smoothedRate medianRates i =
     (let start = max 0 (int i - 2);
          end = min (int (length medianRates) - 1) (int i + 2)
      in \<lparr>daysBefore = daysBefore (medianRates ! i),
          rate = (\<Sum>j\<leftarrow>[start..end]. rate (medianRates ! nat j)) / real_of_int (end - start + 1)\<rparr>)"

definition smoothRates :: "DailyGrowthRate list \<Rightarrow> DailyGrowthRate list" where
  "smoothRates medianRates = map (smoothedRate medianRates) [0..<length medianRates]"

text \<open>The method returns the smoothed curve and stores the median curve in
  \<open>this.medianGrowthRates\<close>: the result is the pair of the new state and the returned
  curve.\<close>

definition calculateGrowthRates :: "string list \<Rightarrow> analyzer \<Rightarrow> analyzer \<times> DailyGrowthRate list" where
  "calculateGrowthRates months s =
     (let medianRates = medianRatesOf (aggregatedDataByMonth s) months
      in (s\<lparr>medianGrowthRates := medianRates\<rparr>, smoothRates medianRates))"

subsection \<open>analyzePeakAndDecline\<close>

text \<open>A \<open>Set\<close> keeps its elements in insertion order; the snapshot's ISO string stands for
  its time value.\<close>

definition set_add :: "'a \<Rightarrow> 'a list \<Rightarrow> 'a list" where
  "set_add x xs = (if List.member xs x then xs else xs @ [x])"

record PeakSnapshot =
  ps_date :: int
  ps_raw :: real
  ps_weighted :: real

definition peakStep ::
  "(ProcessedRow \<times> real) list \<Rightarrow> string \<Rightarrow> int \<Rightarrow> PeakSnapshot \<Rightarrow> PeakSnapshot" where
  "peakStep rows monthKey snapshot peakSnapshot =
     (let dealsForThisSnapshot =
            filter (\<lambda>d. snapshotDate (fst d) = snapshot
                         \<and> monthKeyOf (closingMonth (fst d)) = monthKey) rows;
          totalRaw = foldl (\<lambda>sum d. sum + amount (fst d)) 0 dealsForThisSnapshot;
          totalWeighted = foldl (\<lambda>sum d. sum + snd d) 0 dealsForThisSnapshot
      in if totalRaw > ps_raw peakSnapshot
         then \<lparr>ps_date = snapshot, ps_raw = totalRaw, ps_weighted = totalWeighted\<rparr>
         else peakSnapshot)"

text \<open>The callback of the loop over the historical months, on the rows of \<open>this.allData\<close>
  with their weighted amounts: \<open>None\<close> when it returns without a result. With an invalid closing month date or window bound every comparison of
  the window is false, no snapshot is in the window, and the callback returns.\<close>

definition peakOfMonth ::
  "js_runtime \<Rightarrow> analyzer \<Rightarrow> (ProcessedRow \<times> real) list \<Rightarrow> string
     \<Rightarrow> NewPeakAnalysis option" where
  "peakOfMonth rt s rows monthKey =
     (case Date_parse rt (monthKey @ ''-01T00:00:00.000Z'') of
        None \<Rightarrow> None
      | Some closingMonthDate \<Rightarrow>
          (case (Date_UTC (Some (getUTCFullYear closingMonthDate))
                   (Some (getUTCMonth closingMonthDate + 1)) (Some 0) 23 59 59 999,
                 Date_UTC (Some (getUTCFullYear closingMonthDate))
                   (Some (getUTCMonth closingMonthDate - 1)) (Some 1) 0 0 0 0) of
             (Some windowEndDate, Some windowStartDate) \<Rightarrow>
               (let uniqueSnapshotsInWindow =
                      fold (\<lambda>row u. if snapshotDate row \<ge> windowStartDate
                                        \<and> snapshotDate row \<le> windowEndDate
                                     then set_add (snapshotDate row) u else u)
                        (map fst rows) []
                in if length uniqueSnapshotsInWindow = 0 then None
                   else
                     (let peakSnapshot = fold (peakStep rows monthKey)
                            uniqueSnapshotsInWindow \<lparr>ps_date = 0, ps_raw = 0, ps_weighted = 0\<rparr>
                      in case map_of (actualClosingValues s) monthKey of
                           None \<Rightarrow> None
                         | Some actuals \<Rightarrow>
                             if ps_raw peakSnapshot = 0 then None
                             else Some
                               \<lparr>pk_month = monthKey,
                                peakDate = ps_date peakSnapshot,
                                peakRawValue = ps_raw peakSnapshot,
                                peakWeightedValue = ps_weighted peakSnapshot,
                                daysBeforeClosing =
                                  ceil_div (windowEndDate - ps_date peakSnapshot) msPerDay,
                                actualClosingRawValue = raw actuals,
                                actualClosingWeightedValue = weighted actuals,
                                declinePercentageRaw =
                                  ((ps_raw peakSnapshot - raw actuals) / ps_raw peakSnapshot) * 100,
                                declinePercentageWeighted =
                                  (if ps_weighted peakSnapshot = 0 then None
                                   else Some (((ps_weighted peakSnapshot - weighted actuals)
                                               / ps_weighted peakSnapshot) * 100))\<rparr>))
           | _ \<Rightarrow> None))"

definition analyzePeakAndDecline ::
  "js_runtime \<Rightarrow> analyzer \<Rightarrow> error + NewPeakAnalysis list" where
  "analyzePeakAndDecline rt s =
     (case numericRows (allData s) of
        None \<Rightarrow> Inl NotANumber
      | Some rows \<Rightarrow>
          Inr (sort_by (\<lambda>a b. laterMonth rt (pk_month a) (pk_month b))
                 (List.map_filter (peakOfMonth rt s rows) (allHistoricalMonths s))))"

subsection \<open>loadData\<close>

text \<open>\<open>rawData\<close> is what the CSV parser returns for the text. The method returns early when
  no row was kept.\<close>

definition loadData :: "js_runtime \<Rightarrow> RawCSVRow list \<Rightarrow> analyzer \<Rightarrow> error + analyzer" where
  "loadData rt rawData s =
     (let s1 = processRawData rt rawData s in
      if length (allData s1) = 0 then Inr s1
      else
        (case aggregateDataByMonth rt s1 of
           Inl e \<Rightarrow> Inl e
         | Inr s2 \<Rightarrow>
             (let s3 = categorizeMonths rt (calculateActualClosingValues s2);
                  r = calculateGrowthRates (allHistoricalMonths s3) s3;
                  s4 = (fst r)\<lparr>forecastGrowthRates := snd r\<rparr>
              in case analyzePeakAndDecline rt s4 of
                   Inl e \<Rightarrow> Inl e
                 | Inr peaks \<Rightarrow> Inr (s4\<lparr>peakData := peaks\<rparr>))))"

subsection \<open>Similar historical months\<close>

definition nearer :: "int \<Rightarrow> AggregatedSnapshot \<Rightarrow> AggregatedSnapshot \<Rightarrow> AggregatedSnapshot" where
  "nearer targetDays best point =
     (if \<bar>as_daysBeforeClose point - targetDays\<bar> < \<bar>as_daysBeforeClose best - targetDays\<bar>
      then point else best)"

text \<open>\<open>monthData\<close> is \<open>None\<close> when the month has no entry (\<open>undefined\<close>).\<close>

definition getTrajectoryAtDaysBefore ::
  "AggregatedSnapshot list option \<Rightarrow> int \<Rightarrow> int \<Rightarrow> AggregatedSnapshot option" where
  "getTrajectoryAtDaysBefore monthData targetDays tolerance =
     (case monthData of
        None \<Rightarrow> None
      | Some [] \<Rightarrow> None
      | Some (p # ps) \<Rightarrow>
          (let closest = reduce1 (nearer targetDays) p ps in
           if \<bar>as_daysBeforeClose closest - targetDays\<bar> \<le> tolerance then Some closest
           else None))"

text \<open>One round of the loop over the comparison days: \<open>None\<close> when nothing is pushed.\<close>

definition similarityAt ::
  "AggregatedSnapshot list \<Rightarrow> AggregatedSnapshot list \<Rightarrow> int \<Rightarrow> SimilarityPoint option" where
  "similarityAt currentTrajectory historicalTrajectory day =
     (case (getTrajectoryAtDaysBefore (Some currentTrajectory) day 3,
            getTrajectoryAtDaysBefore (Some historicalTrajectory) day 3) of
        (Some currentPoint, Some historicalPoint) \<Rightarrow>
          (let currentValue = weightedPipeline currentPoint;
               historicalValue = weightedPipeline historicalPoint
           in if historicalValue = 0 then None
              else Some \<lparr>days_before = day,
                         current_value = currentValue,
                         historical_value = historicalValue,
                         pct_difference =
                           ((currentValue - historicalValue) / historicalValue) * 100\<rparr>)
      | _ \<Rightarrow> None)"

definition calculateTrajectorySimilarity ::
  "AggregatedSnapshot list \<Rightarrow> AggregatedSnapshot list \<Rightarrow> int list \<Rightarrow> SimilarityPoint list" where
  "calculateTrajectorySimilarity currentTrajectory historicalTrajectory comparisonDays =
     List.map_filter (similarityAt currentTrajectory historicalTrajectory) comparisonDays"

text \<open>\<open>new Date(month) >= new Date('2025-01-01T00:00:00.000Z')\<close>: false when either
  date is invalid.\<close>

definition sinceJanuary :: "js_runtime \<Rightarrow> string \<Rightarrow> bool" where
  "sinceJanuary rt m =
     (case (Date_parse rt m, Date_parse rt ''2025-01-01T00:00:00.000Z'') of
        (Some a, Some b) \<Rightarrow> a \<ge> b
      | _ \<Rightarrow> False)"

text \<open>One round of the loop over the historical months: \<open>None\<close> when no comparison is
  pushed.\<close>

definition compareWith ::
  "analyzer \<Rightarrow> AggregatedSnapshot list \<Rightarrow> real \<Rightarrow> string \<Rightarrow> NewTrajectoryComparison option" where
  "compareWith s currentTrajectory forecastValue historicalMonth =
     (case map_of (aggregatedDataByMonth s) historicalMonth of
        None \<Rightarrow> None
      | Some [] \<Rightarrow> None
      | Some historicalTrajectory \<Rightarrow>
          (let sims = calculateTrajectorySimilarity currentTrajectory historicalTrajectory
                        [85, 75, 60, 45, 30, 15]
           in if length sims > 0 then
                (let avgPctDiff = foldl (\<lambda>sum x. sum + pct_difference x) 0 sims
                                  / real (length sims);
                     var = sqrt (foldl (\<lambda>sum x. sum + (pct_difference x - avgPctDiff)\<^sup>2) 0 sims
                                 / real (length sims));
                     trajectoryScore = \<bar>avgPctDiff\<bar> + var;
                     historicalClosing =
                       (case map_of (actualClosingValues s) historicalMonth of
                          None \<Rightarrow> 0 | Some v \<Rightarrow> weighted v);
                     forecastDiff = (if forecastValue > 0
                                     then \<bar>historicalClosing - forecastValue\<bar> / forecastValue
                                     else 1)
                 in Some \<lparr>historical_month = historicalMonth,
                           avg_pct_diff = avgPctDiff,
                           variance = var,
                           similarities = sims,
                           historical_closing = historicalClosing,
                           score = (trajectoryScore * 0.7) + (forecastDiff * 0.3)\<rparr>)
              else None))"

text \<open>\<open>xs.slice(a, b)\<close>; a negative index counts from the end.\<close>

definition slice :: "'a list \<Rightarrow> int \<Rightarrow> int \<Rightarrow> 'a list" where
  "slice xs a b =
     (let n = int (length xs);
          lo = (if a < 0 then max (n + a) 0 else min a n);
          hi = (if b < 0 then max (n + b) 0 else min b n)
      in take (nat (hi - lo)) (drop (nat lo) xs))"

definition findSimilarHistoricalMonths ::
  "js_runtime \<Rightarrow> analyzer \<Rightarrow> string \<Rightarrow> real \<Rightarrow> NewTrajectoryComparison list" where
  "findSimilarHistoricalMonths rt s currentMonth forecastValue =
     (case map_of (aggregatedDataByMonth s) currentMonth of
        None \<Rightarrow> []
      | Some [] \<Rightarrow> []
      | Some currentTrajectory \<Rightarrow>
          slice (sort_key score
                   (List.map_filter (compareWith s currentTrajectory forecastValue)
                      (filter (sinceJanuary rt) (allHistoricalMonths s)))) 0 3)"

subsection \<open>getForecast\<close>

text \<open>\<open>rates.find(r => r.daysBefore === d)?.rate ?? 0\<close>.\<close>

definition rateFor :: "DailyGrowthRate list \<Rightarrow> int \<Rightarrow> real" where
  "rateFor rates d = (case find (\<lambda>r. daysBefore r = d) rates of None \<Rightarrow> 0 | Some r \<Rightarrow> rate r)"

definition later :: "AggregatedSnapshot \<Rightarrow> AggregatedSnapshot \<Rightarrow> AggregatedSnapshot" where
  "later latest current =
     (if as_snapshotDate current > as_snapshotDate latest then current else latest)"

definition toPoint :: "AggregatedSnapshot \<Rightarrow> NewTrajectoryPoint" where
  "toPoint d = \<lparr>tp_snapshotDate = as_snapshotDate d, tp_daysBeforeClose = as_daysBeforeClose d,
                tp_weightedAmount = weightedPipeline d, tp_rawAmount = rawPipeline d\<rparr>"

text \<open>The state of the projection loop: \<open>currentValue\<close>, \<open>currentDate\<close> and the points
  pushed so far. \<open>forecastDay rates d\<close> is one round of the loop, for day \<open>d\<close>.\<close>

definition forecastDay ::
  "DailyGrowthRate list \<Rightarrow> int \<Rightarrow> real \<times> int \<times> NewTrajectoryPoint list
     \<Rightarrow> real \<times> int \<times> NewTrajectoryPoint list" where
  "forecastDay rates d st =
     (let growthRate = rateFor rates d;
          currentValue = fst st * (1 + growthRate);
          currentDate = fst (snd st) + msPerDay
      in (currentValue, currentDate,
          snd (snd st) @ [\<lparr>tp_snapshotDate = currentDate, tp_daysBeforeClose = d,
                           tp_weightedAmount = currentValue, tp_rawAmount = 0\<rparr>]))"

text \<open>\<open>for (let d = daysToClose - 1; d >= 0; d--)\<close>.\<close>

definition daysDown :: "int \<Rightarrow> int list" where
  "daysDown n = rev [0..n - 1]"

text \<open>The callback of \<open>this.currentMonths.map\<close>.\<close>

definition forecastMonth :: "js_runtime \<Rightarrow> analyzer \<Rightarrow> string \<Rightarrow> NewAnalysisResult" where
  "forecastMonth rt s monthKey =
     (case map_of (aggregatedDataByMonth s) monthKey of
        Some (p # ps) \<Rightarrow>
          (let latestSnapshot = reduce1 later p ps;
               dtc = as_daysBeforeClose latestSnapshot;
               traj = map toPoint (p # ps)
           in if dtc > 89
              then \<lparr>month = monthKey, currentRawValue = rawPipeline latestSnapshot,
                    currentWeightedValue = weightedPipeline latestSnapshot, daysToClose = dtc,
                    totalProjectedGrowth = Some 0, forecast = None, trajectory = traj,
                    forecastTrajectory = [], similarMonths = []\<rparr>
              else
                (let st = fold (forecastDay (forecastGrowthRates s)) (daysDown dtc)
                            (weightedPipeline latestSnapshot, as_snapshotDate latestSnapshot, []);
                     finalForecast = fst st
                 in \<lparr>month = monthKey, currentRawValue = rawPipeline latestSnapshot,
                     currentWeightedValue = weightedPipeline latestSnapshot, daysToClose = dtc,
                     totalProjectedGrowth =
                       (if weightedPipeline latestSnapshot = 0 then None
                        else Some ((finalForecast / weightedPipeline latestSnapshot) - 1)),
                     forecast = Some finalForecast, trajectory = traj,
                     forecastTrajectory = snd (snd st),
                     similarMonths = findSimilarHistoricalMonths rt s monthKey finalForecast\<rparr>))
      | _ \<Rightarrow> \<lparr>month = monthKey, currentRawValue = 0, currentWeightedValue = 0, daysToClose = 0,
              totalProjectedGrowth = Some 0, forecast = None, trajectory = [],
              forecastTrajectory = [], similarMonths = []\<rparr>)"

definition getForecast :: "js_runtime \<Rightarrow> analyzer \<Rightarrow> NewAnalysisResult list" where
  "getForecast rt s = map (forecastMonth rt s) (currentMonths s)"

definition getHistoricalData :: "analyzer \<Rightarrow> (string \<times> NewTrajectoryPoint list) list" where
  "getHistoricalData s =
     fold (\<lambda>monthKey h. case map_of (aggregatedDataByMonth s) monthKey of
                           None \<Rightarrow> h
                         | Some ps \<Rightarrow> obj_set monthKey (map toPoint ps) h)
       (allHistoricalMonths s) []"

subsection \<open>generateGoalSeekTrajectory\<close>

definition laterPoint :: "NewTrajectoryPoint \<Rightarrow> NewTrajectoryPoint \<Rightarrow> NewTrajectoryPoint" where
  "laterPoint latest p = (if tp_snapshotDate p > tp_snapshotDate latest then p else latest)"

definition baseForecastOf :: "DailyGrowthRate list \<Rightarrow> real \<Rightarrow> int \<Rightarrow> real" where
  "baseForecastOf rates startingValue dtc =
     foldl (\<lambda>acc r. acc * (1 + rate r)) startingValue (filter (\<lambda>r. daysBefore r < dtc) rates)"

text \<open>One round of the projection loop of the goal seek, for day \<open>d\<close>.\<close>

definition goalSeekDay ::
  "real \<Rightarrow> DailyGrowthRate list \<Rightarrow> int \<Rightarrow> real \<times> int \<times> NewTrajectoryPoint list
     \<Rightarrow> real \<times> int \<times> NewTrajectoryPoint list" where
  "goalSeekDay requiredDailyLift rates d st =
     (let baseRate = rateFor rates d;
          adjustedRate = baseRate + requiredDailyLift;
          currentValue = fst st * (1 + adjustedRate);
          currentDate = fst (snd st) + msPerDay
      in (currentValue, currentDate,
          snd (snd st) @ [\<lparr>tp_snapshotDate = currentDate, tp_daysBeforeClose = d,
                           tp_weightedAmount = currentValue, tp_rawAmount = 0\<rparr>]))"

text \<open>The result is \<open>None\<close> when \<open>requiredDailyLift\<close> is \<open>NaN\<close> (a negative
  \<open>requiredTotalGrowth\<close> under a fractional exponent), the projected amounts then being
  \<open>NaN\<close>.\<close>

definition generateGoalSeekTrajectory ::
  "analyzer \<Rightarrow> NewTrajectoryPoint list \<Rightarrow> real \<Rightarrow> NewTrajectoryPoint list option" where
  "generateGoalSeekTrajectory s originalTrajectory goalValue =
     (case originalTrajectory of
        [] \<Rightarrow> Some []
      | p # ps \<Rightarrow>
          (let latestPoint = reduce1 laterPoint p ps;
               startingValue = tp_weightedAmount latestPoint;
               dtc = tp_daysBeforeClose latestPoint
           in if startingValue \<le> 0 \<or> dtc \<le> 0 then Some originalTrajectory
              else
                (let baseForecast = baseForecastOf (forecastGrowthRates s) startingValue dtc
                 in if baseForecast \<le> 0 then Some originalTrajectory
                    else
                      (case Math_pow (goalValue / baseForecast) (1 / real_of_int dtc) of
                         None \<Rightarrow> None
                       | Some g \<Rightarrow>
                           (let requiredDailyLift = g - 1;
                                st = fold (goalSeekDay requiredDailyLift (forecastGrowthRates s))
                                       (daysDown dtc)
                                       (startingValue, tp_snapshotDate latestPoint, [latestPoint])
                            in Some (originalTrajectory
                                     @ filter (\<lambda>q. tp_daysBeforeClose q
                                                      < tp_daysBeforeClose latestPoint)
                                         (snd (snd st))))))))"

section \<open>BacktestAnalyzer\<close>

record backtest_analyzer =
  bt_aggregatedDataByMonth :: MonthData
  bt_actualClosingValues :: "(string \<times> Totals) list"
  bt_allHistoricalMonths :: "string list"

definition startMonth :: string where
  "startMonth = ''2025-04''"

text \<open>The constructor; its \<open>categorizeMonths\<close> keeps the months under the test of the
  analyzer's (\<open>isHistorical\<close>) and sorts them by date.\<close>

definition new_BacktestAnalyzer ::
  "js_runtime \<Rightarrow> MonthData \<Rightarrow> (string \<times> Totals) list \<Rightarrow> backtest_analyzer" where
  "new_BacktestAnalyzer rt agg acv =
     \<lparr>bt_aggregatedDataByMonth = agg, bt_actualClosingValues = acv,
      bt_allHistoricalMonths =
        sort_by (laterMonth rt) (filter (isHistorical rt acv) (map fst agg))\<rparr>"

text \<open>The class has its own copy of \<open>calculateGrowthRates\<close>, the text of the analyzer's
  without the assignment to \<open>this.medianGrowthRates\<close>.\<close>

definition bt_calculateGrowthRates :: "backtest_analyzer \<Rightarrow> string list \<Rightarrow> DailyGrowthRate list" where
  "bt_calculateGrowthRates b months =
     smoothRates (medianRatesOf (bt_aggregatedDataByMonth b) months)"

text \<open>\<open>xs.findIndex(p)\<close>, \<open>None\<close> for \<open>-1\<close>.\<close>

fun findIndex :: "('a \<Rightarrow> bool) \<Rightarrow> 'a list \<Rightarrow> nat option" where
  "findIndex P [] = None"
| "findIndex P (x # xs) =
     (if P x then Some 0 else map_option Suc (findIndex P xs))"

text \<open>The callback of \<open>testPoints.forEach\<close>: the result pushed for a test day, if any.\<close>

definition predictAt ::
  "DailyGrowthRate list \<Rightarrow> AggregatedSnapshot list option \<Rightarrow> string \<Rightarrow> real \<Rightarrow> int
     \<Rightarrow> NewBacktestResult option" where
  "predictAt backtestGrowthRates monthData testMonth act day =
     (case getTrajectoryAtDaysBefore monthData day 3 of
        None \<Rightarrow> None
      | Some startPoint \<Rightarrow>
          Some \<lparr>bt_month = testMonth,
                bt_daysBefore = as_daysBeforeClose startPoint,
                prediction = fold (\<lambda>d pr. pr * (1 + rateFor backtestGrowthRates d))
                               (daysDown (as_daysBeforeClose startPoint))
                               (weightedPipeline startPoint),
                actual = act\<rparr>)"

definition testPoints :: "int list" where
  "testPoints = [60, 45, 30, 15, 7, 1]"

text \<open>One round of the loop over the months from \<open>startIndex\<close>, for index \<open>i\<close>:
  the training months and the results it pushes, or \<open>None\<close> when it continues without
  testing the month. \<open>actual\<close> is falsy when the month has no closing value or its weighted
  value is 0.\<close>

definition backtestMonth ::
  "backtest_analyzer \<Rightarrow> nat \<Rightarrow> (string \<times> string list \<times> NewBacktestResult list) option" where
  "backtestMonth b i =
     (let testMonth = bt_allHistoricalMonths b ! i;
          trainingMonths = slice (bt_allHistoricalMonths b) (int i - 3) (int i)
      in if length trainingMonths \<noteq> 3 then None
         else
           (let backtestGrowthRates = bt_calculateGrowthRates b trainingMonths;
                monthData = map_of (bt_aggregatedDataByMonth b) testMonth
            in case map_of (bt_actualClosingValues b) testMonth of
                 None \<Rightarrow> None
               | Some v \<Rightarrow>
                   if weighted v = 0 then None
                   else Some (testMonth, trainingMonths,
                              List.map_filter
                                (predictAt backtestGrowthRates monthData testMonth (weighted v))
                                testPoints)))"

text \<open>\<open>getDetailedBacktestResults\<close> returns, for every month it tests, the month, its
  training months and its results; \<open>getBacktestResults\<close> returns the results alone.\<close>

definition getDetailedBacktestResults ::
  "backtest_analyzer \<Rightarrow> (string \<times> string list \<times> NewBacktestResult list) list" where
  "getDetailedBacktestResults b =
     (case findIndex (\<lambda>m. str_ge m startMonth) (bt_allHistoricalMonths b) of
        None \<Rightarrow> []
      | Some startIndex \<Rightarrow>
          if startIndex < 3 then []
          else List.map_filter (backtestMonth b)
                 [startIndex..<length (bt_allHistoricalMonths b)])"

definition getBacktestResults :: "backtest_analyzer \<Rightarrow> NewBacktestResult list" where
  "getBacktestResults b =
     (case findIndex (\<lambda>m. str_ge m startMonth) (bt_allHistoricalMonths b) of
        None \<Rightarrow> []
      | Some startIndex \<Rightarrow>
          if startIndex < 3 then []
          else concat (map (\<lambda>r. snd (snd r))
                 (List.map_filter (backtestMonth b)
                    [startIndex..<length (bt_allHistoricalMonths b)])))"

section \<open>Example inputs\<close>

text \<open>A runtime for the examples: the time values of the date strings and the numbers of
  the amount strings that the examples use, as ECMAScript defines them (the date strings
  are in its date-time format), and a clock that reads 2025-07-15T12:00:00.000Z.\<close>

definition example_runtime :: js_runtime where
  "example_runtime =
     \<lparr>Date_parse = map_of
        [(''2025-01-01T00:00:00.000Z'', 1735689600000),
         (''2025-01-02T00:00:00.000Z'', 1735776000000),
         (''2025-03-15T00:00:00.000Z'', 1741996800000),
         (''2025-03-30T12:00:00.000Z'', 1743336000000),
         (''2025-04-05T23:59:59.999Z'', 1743897599999),
         (''2025-04-06T23:59:59.999Z'', 1743983999999),
         (''2025-02-01T00:00:00.000Z'', 1738368000000),
         (''2025-03-01T00:00:00.000Z'', 1740787200000),
         (''2025-04-01T00:00:00.000Z'', 1743465600000),
         (''2025-05-01T00:00:00.000Z'', 1746057600000),
         (''2025-06-01T00:00:00.000Z'', 1748736000000),
         (''2025-12-01T00:00:00.000Z'', 1764547200000),
         (''2025-01'', 1735689600000),
         (''2025-02'', 1738368000000),
         (''2025-03'', 1740787200000),
         (''2025-04'', 1743465600000),
         (''2025-05'', 1746057600000),
         (''2025-06'', 1748736000000),
         (''2025-12'', 1764547200000)],
      parseFloat = map_of [(''100'', 100), (''250'', 250)],
      Date_now = 1752580800000\<rparr>"

definition example_row :: "string \<Rightarrow> string \<Rightarrow> string \<Rightarrow> RawCSVRow" where
  "example_row snap closing amt =
     \<lparr>snapShotTime = Some snap, date = Some closing, totalAmount = Some amt,
      stage = Some ''FUNDED''\<rparr>"

text \<open>A trajectory point \<open>d\<close> days before the end of March 2025 (2025-03-31T23:59:59.999Z)
  with raw and weighted value \<open>w\<close>, and the same as a point of the presentation layer.\<close>

definition snapshot_at :: "int \<Rightarrow> real \<Rightarrow> AggregatedSnapshot" where
  "snapshot_at d w =
     \<lparr>as_snapshotDate = 1743465599999 - d * 86400000, as_daysBeforeClose = d,
      rawPipeline = w, weightedPipeline = w\<rparr>"

definition point_at :: "int \<Rightarrow> real \<Rightarrow> NewTrajectoryPoint" where
  "point_at d w = toPoint (snapshot_at d w)"

text \<open>The smoothed curve that \<open>calculateGrowthRates\<close> returns when the median rate is
  0.25 for the days 0, 1 and 2 and 0 for the days above (a historical month that grew by a
  quarter on each of its last three days); its rate for day 0 is 0.25.\<close>

definition example_curve :: "DailyGrowthRate list" where
  "example_curve =
     smoothRates (map (\<lambda>d. \<lparr>daysBefore = d, rate = (if d \<le> 2 then 0.25 else 0)\<rparr>) [0..89])"

definition curve_analyzer :: analyzer where
  "curve_analyzer = new_analyzer\<lparr>forecastGrowthRates := example_curve\<rparr>"

text \<open>An analyzer with the curve above whose only month is current and has the points
  \<open>ps\<close>.\<close>

definition current_month_analyzer :: "AggregatedSnapshot list \<Rightarrow> analyzer" where
  "current_month_analyzer ps =
     curve_analyzer\<lparr>aggregatedDataByMonth := [(''2025-12'', ps)],
                    currentMonths := [''2025-12'']\<rparr>"

text \<open>Backtest data. Four closed months from February to May 2025, each with a closing
  point, May also with a point 30 days before close; and the same with January before
  them.\<close>

definition months_from_february :: MonthData where
  "months_from_february =
     [(''2025-02'', [snapshot_at 0 100]), (''2025-03'', [snapshot_at 0 110]),
      (''2025-04'', [snapshot_at 0 120]), (''2025-05'', [snapshot_at 30 90, snapshot_at 0 130])]"

definition closings_from_february :: "(string \<times> Totals) list" where
  "closings_from_february =
     [(''2025-02'', \<lparr>raw = 100, weighted = 100\<rparr>), (''2025-03'', \<lparr>raw = 110, weighted = 110\<rparr>),
      (''2025-04'', \<lparr>raw = 120, weighted = 120\<rparr>), (''2025-05'', \<lparr>raw = 130, weighted = 130\<rparr>)]"

definition backtest_from_february :: backtest_analyzer where
  "backtest_from_february =
     new_BacktestAnalyzer example_runtime months_from_february closings_from_february"

definition backtest_from_january :: backtest_analyzer where
  "backtest_from_january =
     new_BacktestAnalyzer example_runtime
       ((''2025-01'', [snapshot_at 0 90]) # months_from_february)
       ((''2025-01'', \<lparr>raw = 90, weighted = 90\<rparr>) # closings_from_february)"

text \<open>An analyzer with two months of two points each, a day apart: February grows from 100
  to 110 and March from 100 to 120, both on day 1.\<close>

definition two_month_analyzer :: analyzer where
  "two_month_analyzer =
     new_analyzer\<lparr>aggregatedDataByMonth :=
       [(''2025-02'', [snapshot_at 2 100, snapshot_at 1 110]),
        (''2025-03'', [snapshot_at 2 100, snapshot_at 1 120])]\<rparr>"

text \<open>The months January to May with the data after April changed: May has another
  trajectory and another closing value, and April another closing value.\<close>

definition backtest_mutated :: backtest_analyzer where
  "backtest_mutated =
     new_BacktestAnalyzer example_runtime
       [(''2025-01'', [snapshot_at 0 90]), (''2025-02'', [snapshot_at 0 100]),
        (''2025-03'', [snapshot_at 0 110]), (''2025-04'', [snapshot_at 0 120]),
        (''2025-05'', [snapshot_at 30 500, snapshot_at 0 700])]
       [(''2025-01'', \<lparr>raw = 90, weighted = 90\<rparr>), (''2025-02'', \<lparr>raw = 100, weighted = 100\<rparr>),
        (''2025-03'', \<lparr>raw = 110, weighted = 110\<rparr>), (''2025-04'', \<lparr>raw = 125, weighted = 125\<rparr>),
        (''2025-05'', \<lparr>raw = 700, weighted = 700\<rparr>)]"

text \<open>A CSV with one row: a snapshot of 2025-03-30T12:00:00.000Z, closing date 03/31/2025,
  amount 100, stage FUNDED; and the state of a fresh analyzer after loading it (under the
  example runtime, whose clock reads July 2025, March is a historical month).\<close>

definition march_row :: RawCSVRow where
  "march_row = example_row ''2025-03-30T12:00:00.000Z'' ''03/31/2025'' ''100''"

definition march_point :: AggregatedSnapshot where
  "march_point =
     \<lparr>as_snapshotDate = 1743336000000, as_daysBeforeClose = 2, rawPipeline = 100,
      weightedPipeline = 100\<rparr>"

definition march_analyzer :: analyzer where
  "march_analyzer =
     \<lparr>allData = [\<lparr>snapshotDate = 1743336000000, closingMonth = 1743379200000,
                  daysBeforeClose = 2, amount = 100, pr_stage = ''FUNDED'',
                  weightedAmount = Some 100\<rparr>],
      aggregatedDataByMonth = [(''2025-03'', [march_point])],
      allHistoricalMonths = [''2025-03''],
      currentMonths = [],
      actualClosingValues = [(''2025-03'', \<lparr>raw = 100, weighted = 100\<rparr>)],
      forecastGrowthRates = map (\<lambda>d. \<lparr>daysBefore = d, rate = 0\<rparr>) [0..89],
      medianGrowthRates = map (\<lambda>d. \<lparr>daysBefore = d, rate = 0\<rparr>) [0..89],
      peakData = [\<lparr>pk_month = ''2025-03'', peakDate = 1743336000000, peakRawValue = 100,
                   peakWeightedValue = 100, daysBeforeClosing = 2,
                   actualClosingRawValue = 100, actualClosingWeightedValue = 100,
                   declinePercentageRaw = 0, declinePercentageWeighted = Some 0\<rparr>]\<rparr>"

text \<open>An analyzer whose one month, March, grew by a quarter on each of its last three days:
  64, 80, 100 and 125 at 3, 2, 1 and 0 days before close.\<close>

definition growing_analyzer :: analyzer where
  "growing_analyzer =
     new_analyzer\<lparr>aggregatedDataByMonth :=
       [(''2025-03'', [snapshot_at 3 64, snapshot_at 2 80, snapshot_at 1 100, snapshot_at 0 125])]\<rparr>"

section \<open>The parser\<close>

subsection \<open>Evaluating the example rows\<close>

lemma march_closing: "closingMonthDateOf rt ''03/31/2025'' = Some 1743379200000"
proof -
  have "str_includes ''03/31/2025'' CHR ''/'' = True"
    "str_split ''03/31/2025'' CHR ''/'' = [''03'', ''31'', ''2025'']"
    "parseInt ''2025'' = Some 2025" "parseInt ''03'' = Some 3" "parseInt ''31'' = Some 31"
    "Date_UTC (Some 2025) (Some 2) (Some 31) 0 0 0 0 = Some 1743379200000"
    by code_simp+
  then show ?thesis by (simp add: closingMonthDateOf_def)
qed

lemma march_facts:
  "getUTCFullYear 1743379200000 = 2025"
  "getUTCMonth 1743379200000 = 2"
  "monthKeyOf 1743379200000 = ''2025-03''"
  "daysBeforeCloseOf 1743379200000 1735776000000 = 89"
  "daysBeforeCloseOf 1743379200000 1735689600000 = 90"
  "daysBeforeCloseOf 1743379200000 1743983999999 = - 6"
  "daysBeforeCloseOf 1743379200000 1743897599999 = - 5"
  "daysBeforeCloseOf 1743379200000 1741996800000 = 17"
  by code_simp+

lemma example_strings:
  "trim ''2025-01-02T00:00:00.000Z'' = ''2025-01-02T00:00:00.000Z''"
  "trim ''2025-01-01T00:00:00.000Z'' = ''2025-01-01T00:00:00.000Z''"
  "trim ''2025-04-06T23:59:59.999Z'' = ''2025-04-06T23:59:59.999Z''"
  "trim ''2025-04-05T23:59:59.999Z'' = ''2025-04-05T23:59:59.999Z''"
  "trim ''2025-03-15T00:00:00.000Z'' = ''2025-03-15T00:00:00.000Z''"
  "trim ''03/31/2025'' = ''03/31/2025''"
  "trim ''2025-03-31'' = ''2025-03-31''"
  "trim ''FUNDED'' = ''FUNDED''"
  by code_simp+

text \<open>The no-break space is trimmed and skipped like the other white space.\<close>

lemma no_break_space:
  "trim (''FUNDED'' @ [CHR 0xA0]) = ''FUNDED''"
  "trim (CHR 0xA0 # '' FUNDED'') = ''FUNDED''"
  "parseInt (CHR 0xA0 # ''12'') = Some 12"
  by code_simp+

text \<open>The weighted amount of a stage of the table, of an unknown stage and of a stage that
  names an inherited property; a load with a row of the last kind has no state in the
  embedding.\<close>

lemma stage_weights:
  "weightedAmountOf 100 ''FUNDED'' = Some 100"
  "weightedAmountOf 100 ''APPROVED'' = Some 60"
  "weightedAmountOf 100 ''LEAD'' = Some 0"
  "weightedAmountOf 100 ''constructor'' = None"
  by code_simp+

lemma inherited_stage_load:
  "map_option weightedAmount
     (parseRow example_runtime (march_row\<lparr>stage := Some ''toString''\<rparr>)) = Some None"
  "loadData example_runtime [march_row\<lparr>stage := Some ''toString''\<rparr>] new_analyzer
     = Inl NotANumber"
  by code_simp+

lemma example_amount:
  "parseFloat example_runtime (filter (\<lambda>c. \<not> (c = CHR '','' \<or> c = CHR ''$'')) ''100'') = Some 100"
  by (simp add: example_runtime_def)

lemma iso_closing: "closingMonthDateOf rt ''2025-03-31'' = Some 4092076800000"
proof -
  have "str_includes ''2025-03-31'' CHR ''/'' = False"
    "str_split ''2025-03-31'' CHR ''-'' = [''2025'', ''03'', ''31'']"
    "parseInt ''2025'' = Some 2025" "parseInt ''03'' = Some 3" "parseInt ''31'' = Some 31"
    "Date_UTC (Some 31) (Some 2024) (Some 3) 0 0 0 0 = Some 4092076800000"
    by code_simp+
  then show ?thesis by (simp add: closingMonthDateOf_def)
qed

lemma iso_year: "getUTCFullYear 4092076800000 = 2099"
  by code_simp

subsection \<open>C2: a closing date in ISO format\<close>

text \<open>
  C2 says that a row whose closing date is an ISO date \<open>YYYY-MM-DD\<close> of the year 2025, its
  other fields being parseable and its days before close in range, is kept with the month
  of that date. The parser splits a date without \<open>/\<close> at \<open>-\<close> and reads the three parts in
  the order month, day, year of the \<open>MM/DD/YYYY\<close> format: for \<open>2025-03-31\<close> it calls
  \<open>Date.UTC(31, 2024, 3)\<close>, the 3rd of September 2099, and drops the row at the test of the
  year. The theorem evaluates the parser on such a row (snapshot 2025-03-15, 17 days before
  the end of March 2025), for every runtime: the row is dropped.
\<close>

theorem C2_iso_closing_date_dropped:
  "closingMonthDateOf rt ''2025-03-31'' = Some 4092076800000
   \<and> getUTCFullYear 4092076800000 = 2099
   \<and> parseRow rt (example_row ''2025-03-15T00:00:00.000Z'' ''2025-03-31'' ''100'') = None
   \<and> allData (processRawData rt
        [example_row ''2025-03-15T00:00:00.000Z'' ''2025-03-31'' ''100''] new_analyzer) = []"
  by (simp add: parseRow_def processRawData_def example_row_def example_strings iso_closing
      iso_year split: option.split)

subsection \<open>C6: the range of days before close\<close>

text \<open>
  C6: a row that passes every other step of the parser (the four fields are present, the
  snapshot time and the closing date parse, the closing year is 2025, the amount parses) is
  kept if and only if its days before close, computed from the end of the closing month and
  the snapshot, are in \<open>[-5, 89]\<close>; the kept observation carries that day count.
\<close>

theorem C6_kept_iff_days_in_range:
  assumes "snapShotTime row = Some st" and "date row = Some dt"
    and "totalAmount row = Some ta" and "stage row = Some sg"
    and "st \<noteq> []" and "dt \<noteq> []" and "ta \<noteq> []" and "sg \<noteq> []"
    and "Date_parse rt (trim st) = Some snapshot"
    and "closingMonthDateOf rt (trim dt) = Some c"
    and "getUTCFullYear c = 2025"
    and "parseFloat rt (filter (\<lambda>c. \<not> (c = CHR '','' \<or> c = CHR ''$'')) ta) = Some amt"
  shows "((\<exists>p. parseRow rt row = Some p \<and> daysBeforeClose p = daysBeforeCloseOf c snapshot)
            \<longleftrightarrow> (- 5 \<le> daysBeforeCloseOf c snapshot \<and> daysBeforeCloseOf c snapshot \<le> 89))
       \<and> (parseRow rt row = None
            \<longleftrightarrow> (daysBeforeCloseOf c snapshot > 89 \<or> daysBeforeCloseOf c snapshot < - 5))
       \<and> length (allData (processRawData rt [row] s))
           = (if - 5 \<le> daysBeforeCloseOf c snapshot \<and> daysBeforeCloseOf c snapshot \<le> 89
              then 1 else 0)"
  using assms by (auto simp: parseRow_def processRawData_def Let_def)

text \<open>Rows closing in March 2025 with snapshots 89, 90, -6 and -5 days before the end of
  the month: the first and the last are kept, the other two dropped.\<close>

theorem C6_kept_iff_days_in_range_witness:
  "(\<exists>p. parseRow example_runtime
           (example_row ''2025-01-02T00:00:00.000Z'' ''03/31/2025'' ''100'') = Some p
        \<and> daysBeforeClose p = 89)
   \<and> parseRow example_runtime
        (example_row ''2025-01-01T00:00:00.000Z'' ''03/31/2025'' ''100'') = None
   \<and> parseRow example_runtime
        (example_row ''2025-04-06T23:59:59.999Z'' ''03/31/2025'' ''100'') = None
   \<and> (\<exists>p. parseRow example_runtime
           (example_row ''2025-04-05T23:59:59.999Z'' ''03/31/2025'' ''100'') = Some p
        \<and> daysBeforeClose p = - 5)"
proof -
  note c = march_closing [of example_runtime]
  have a: "\<exists>p. parseRow example_runtime
           (example_row ''2025-01-02T00:00:00.000Z'' ''03/31/2025'' ''100'') = Some p
        \<and> daysBeforeClose p = 89"
    using C6_kept_iff_days_in_range
      [of "example_row ''2025-01-02T00:00:00.000Z'' ''03/31/2025'' ''100''"
        "''2025-01-02T00:00:00.000Z''" "''03/31/2025''" "''100''" "''FUNDED''" example_runtime
        1735776000000 1743379200000 100]
    by (simp add: example_row_def example_strings c march_facts example_amount)
      (simp add: example_runtime_def)
  have b: "parseRow example_runtime
        (example_row ''2025-01-01T00:00:00.000Z'' ''03/31/2025'' ''100'') = None"
    using C6_kept_iff_days_in_range
      [of "example_row ''2025-01-01T00:00:00.000Z'' ''03/31/2025'' ''100''"
        "''2025-01-01T00:00:00.000Z''" "''03/31/2025''" "''100''" "''FUNDED''" example_runtime
        1735689600000 1743379200000 100]
    by (simp add: example_row_def example_strings c march_facts example_amount)
      (simp add: example_runtime_def)
  have d: "parseRow example_runtime
        (example_row ''2025-04-06T23:59:59.999Z'' ''03/31/2025'' ''100'') = None"
    using C6_kept_iff_days_in_range
      [of "example_row ''2025-04-06T23:59:59.999Z'' ''03/31/2025'' ''100''"
        "''2025-04-06T23:59:59.999Z''" "''03/31/2025''" "''100''" "''FUNDED''" example_runtime
        1743983999999 1743379200000 100]
    by (simp add: example_row_def example_strings c march_facts example_amount)
      (simp add: example_runtime_def)
  have e: "\<exists>p. parseRow example_runtime
           (example_row ''2025-04-05T23:59:59.999Z'' ''03/31/2025'' ''100'') = Some p
        \<and> daysBeforeClose p = - 5"
    using C6_kept_iff_days_in_range
      [of "example_row ''2025-04-05T23:59:59.999Z'' ''03/31/2025'' ''100''"
        "''2025-04-05T23:59:59.999Z''" "''03/31/2025''" "''100''" "''FUNDED''" example_runtime
        1743897599999 1743379200000 100]
    by (simp add: example_row_def example_strings c march_facts example_amount)
      (simp add: example_runtime_def)
  from a b d e show ?thesis by blast
qed

section \<open>Loading\<close>

subsection \<open>C1: loading twice\<close>

text \<open>
  C1 says that after \<open>loadData(c1)\<close> and \<open>loadData(c2)\<close> on one analyzer the derived state
  is that of a fresh analyzer after \<open>loadData(c2)\<close>, and that a \<open>c2\<close> without a valid row
  leaves a state without data in which every computation returns an empty result.
  \<open>loadData\<close> replaces \<open>allData\<close>, but it returns before touching anything else when
  no row is valid, and otherwise \<open>aggregateDataByMonth\<close> appends the new points to the
  trajectories of the previous load and \<open>calculateActualClosingValues\<close> writes into the
  closing values of the previous load. The theorem evaluates the loads of the one-row CSV
  and of a CSV without rows: after the row and then the empty CSV the analyzer has no
  rows (\<open>hasData\<close> is false) but keeps the month, its trajectory, its closing value, the
  curves and the peak of the first load, and \<open>getHistoricalData\<close> returns the trajectory
  of March, where a fresh analyzer after the empty CSV has nothing; and after loading the
  row twice the trajectory of March has its point twice.
\<close>

theorem C1_second_load_keeps_first:
  "loadData example_runtime [march_row] new_analyzer = Inr march_analyzer
   \<and> loadData example_runtime [] new_analyzer = Inr new_analyzer
   \<and> loadData example_runtime [] march_analyzer = Inr (march_analyzer\<lparr>allData := []\<rparr>)
   \<and> \<not> hasData (march_analyzer\<lparr>allData := []\<rparr>)
   \<and> aggregatedDataByMonth (march_analyzer\<lparr>allData := []\<rparr>) = [(''2025-03'', [march_point])]
   \<and> aggregatedDataByMonth new_analyzer = []
   \<and> getHistoricalData (march_analyzer\<lparr>allData := []\<rparr>) = [(''2025-03'', [toPoint march_point])]
   \<and> getHistoricalData new_analyzer = []
   \<and> map_sum id aggregatedDataByMonth (loadData example_runtime [march_row] march_analyzer)
       = Inr [(''2025-03'', [march_point, march_point])]"
proof -
  have a: "loadData example_runtime [march_row] new_analyzer = Inr march_analyzer"
    by code_simp
  have b: "loadData example_runtime [] new_analyzer = Inr new_analyzer"
    by code_simp
  have c: "loadData example_runtime [] march_analyzer = Inr (march_analyzer\<lparr>allData := []\<rparr>)"
    by code_simp
  have d: "\<not> hasData (march_analyzer\<lparr>allData := []\<rparr>)"
    "aggregatedDataByMonth (march_analyzer\<lparr>allData := []\<rparr>) = [(''2025-03'', [march_point])]"
    "aggregatedDataByMonth new_analyzer = []"
    "getHistoricalData (march_analyzer\<lparr>allData := []\<rparr>) = [(''2025-03'', [toPoint march_point])]"
    "getHistoricalData new_analyzer = []"
    by (simp_all add: hasData_def march_analyzer_def new_analyzer_def getHistoricalData_def)
  have e: "map_sum id aggregatedDataByMonth (loadData example_runtime [march_row] march_analyzer)
       = Inr [(''2025-03'', [march_point, march_point])]"
    by code_simp
  from a b c d e show ?thesis by blast
qed

section \<open>The forecast\<close>

lemma fold_forecastDay_value:
  "fst (fold (forecastDay rates) ds st) = fold (\<lambda>d v. v * (1 + rateFor rates d)) ds (fst st)"
  by (induction ds arbitrary: st) (simp_all add: forecastDay_def Let_def)

lemma fold_forecastDay_days:
  "map tp_daysBeforeClose (snd (snd (fold (forecastDay rates) ds st)))
     = map tp_daysBeforeClose (snd (snd st)) @ ds"
  by (induction ds arbitrary: st) (simp_all add: forecastDay_def Let_def)

lemma fold_times:
  "fold (\<lambda>d v. v * f d) ds (v :: real) = v * prod_list (map f ds)"
  by (induction ds arbitrary: v) (simp_all add: mult.assoc)

lemma prod_daysDown:
  "prod_list (map f (daysDown n)) = (\<Prod>d = 0..n - 1. (f d :: real))"
proof -
  have "prod f (set (daysDown n)) = prod_list (map f (daysDown n))"
    by (rule prod.distinct_set_conv_list) (simp add: daysDown_def)
  then show ?thesis by (simp add: daysDown_def)
qed

text \<open>What the \<open>reduce\<close> of \<open>getForecast\<close> returns: the first point with the greatest
  snapshot date.\<close>

lemma foldl_later_first:
  "\<exists>k < length (p # ps). foldl later p ps = (p # ps) ! k
      \<and> (\<forall>j < length (p # ps). as_snapshotDate ((p # ps) ! j) \<le> as_snapshotDate ((p # ps) ! k))
      \<and> (\<forall>j < k. as_snapshotDate ((p # ps) ! j) < as_snapshotDate ((p # ps) ! k))"
proof (induction ps rule: rev_induct)
  case Nil
  then show ?case by simp
next
  case (snoc q ps)
  then obtain k where k: "k < length (p # ps)" "foldl later p ps = (p # ps) ! k"
    "\<forall>j < length (p # ps). as_snapshotDate ((p # ps) ! j) \<le> as_snapshotDate ((p # ps) ! k)"
    "\<forall>j < k. as_snapshotDate ((p # ps) ! j) < as_snapshotDate ((p # ps) ! k)"
    by blast
  let ?xs = "p # ps @ [q]"
  have pre: "?xs ! j = (p # ps) ! j" if "j < length (p # ps)" for j
    using that nth_append [of "p # ps" "[q]" j] by simp
  have last: "?xs ! length (p # ps) = q"
    using nth_append_length [of "p # ps" q "[]"] by simp
  show ?case
  proof (cases "as_snapshotDate q > as_snapshotDate (foldl later p ps)")
    case True
    have "foldl later p (ps @ [q]) = ?xs ! length (p # ps)"
      using True last by (simp add: later_def)
    moreover have "\<forall>j < length ?xs. as_snapshotDate (?xs ! j) \<le> as_snapshotDate (?xs ! length (p # ps))"
    proof (intro allI impI)
      fix j assume "j < length ?xs"
      then consider "j < length (p # ps)" | "j = length (p # ps)" by force
      then show "as_snapshotDate (?xs ! j) \<le> as_snapshotDate (?xs ! length (p # ps))"
      proof cases
        case 1
        with k(2,3) True pre [OF 1] last show ?thesis by (metis less_le_not_le order.trans linear)
      next
        case 2
        then show ?thesis by simp
      qed
    qed
    moreover have "\<forall>j < length (p # ps). as_snapshotDate (?xs ! j) < as_snapshotDate (?xs ! length (p # ps))"
    proof (intro allI impI)
      fix j assume j: "j < length (p # ps)"
      from k(3) j have "as_snapshotDate ((p # ps) ! j) \<le> as_snapshotDate (foldl later p ps)"
        using k(2) by simp
      with True pre [OF j] last show "as_snapshotDate (?xs ! j) < as_snapshotDate (?xs ! length (p # ps))"
        by simp
    qed
    ultimately show ?thesis
      by (intro exI [of _ "length (p # ps)"]) simp
  next
    case False
    have f: "foldl later p (ps @ [q]) = ?xs ! k"
      using False k(1,2) pre [OF k(1)] by (simp add: later_def)
    have "\<forall>j < length ?xs. as_snapshotDate (?xs ! j) \<le> as_snapshotDate (?xs ! k)"
    proof (intro allI impI)
      fix j assume "j < length ?xs"
      then consider "j < length (p # ps)" | "j = length (p # ps)" by force
      then show "as_snapshotDate (?xs ! j) \<le> as_snapshotDate (?xs ! k)"
      proof cases
        case 1
        with k(3) pre [OF 1] pre [OF k(1)] show ?thesis by simp
      next
        case 2
        with False k(2) pre [OF k(1)] last show ?thesis by simp
      qed
    qed
    moreover have "\<forall>j < k. as_snapshotDate (?xs ! j) < as_snapshotDate (?xs ! k)"
    proof (intro allI impI)
      fix j assume j: "j < k"
      with k(1) have j': "j < length (p # ps)" by simp
      from k(4) j pre [OF j'] pre [OF k(1)] show "as_snapshotDate (?xs ! j) < as_snapshotDate (?xs ! k)"
        by simp
    qed
    ultimately show ?thesis
      using f k(1) by (intro exI [of _ k]) simp
  qed
qed

lemma reduce1_later:
  assumes "k < length (p # ps)"
    and "\<forall>j < length (p # ps). as_snapshotDate ((p # ps) ! j) \<le> as_snapshotDate ((p # ps) ! k)"
    and "\<forall>j < k. as_snapshotDate ((p # ps) ! j) < as_snapshotDate ((p # ps) ! k)"
  shows "reduce1 later p ps = (p # ps) ! k"
proof -
  obtain m where m: "m < length (p # ps)" "foldl later p ps = (p # ps) ! m"
    "\<forall>j < length (p # ps). as_snapshotDate ((p # ps) ! j) \<le> as_snapshotDate ((p # ps) ! m)"
    "\<forall>j < m. as_snapshotDate ((p # ps) ! j) < as_snapshotDate ((p # ps) ! m)"
    using foldl_later_first [of p ps] by blast
  have "\<not> m < k"
  proof
    assume "m < k"
    with assms(3) have "as_snapshotDate ((p # ps) ! m) < as_snapshotDate ((p # ps) ! k)" by blast
    moreover from m(3) assms(1) have "as_snapshotDate ((p # ps) ! k) \<le> as_snapshotDate ((p # ps) ! m)"
      by blast
    ultimately show False by simp
  qed
  moreover have "\<not> k < m"
  proof
    assume "k < m"
    with m(4) have "as_snapshotDate ((p # ps) ! k) < as_snapshotDate ((p # ps) ! m)" by blast
    moreover from assms(2) m(1) have "as_snapshotDate ((p # ps) ! m) \<le> as_snapshotDate ((p # ps) ! k)"
      by blast
    ultimately show False by simp
  qed
  ultimately have "m = k" by simp
  with m(2) show ?thesis by (simp add: reduce1_def)
qed

lemma forecastMonth_latest:
  assumes "map_of (aggregatedDataByMonth s) monthKey = Some (p # ps)"
    and "latest = reduce1 later p ps"
    and "r = forecastMonth rt s monthKey"
  shows "month r = monthKey
     \<and> currentRawValue r = rawPipeline latest
     \<and> currentWeightedValue r = weightedPipeline latest
     \<and> daysToClose r = as_daysBeforeClose latest
     \<and> (as_daysBeforeClose latest > 89 \<longrightarrow> forecast r = None \<and> forecastTrajectory r = [])
     \<and> (as_daysBeforeClose latest \<le> 89 \<longrightarrow>
           forecast r = Some (weightedPipeline latest
                              * (\<Prod>d = 0..as_daysBeforeClose latest - 1.
                                   1 + rateFor (forecastGrowthRates s) d))
           \<and> map tp_daysBeforeClose (forecastTrajectory r)
               = rev [0..as_daysBeforeClose latest - 1])"
  using assms
  by (auto simp: forecastMonth_def Let_def fold_forecastDay_value fold_forecastDay_days
      fold_times prod_daysDown) (simp add: daysDown_def)

lemma example_rates:
  "rateFor example_curve 0 = 1 / 4" "rateFor example_curve 1 = 3 / 16"
  by code_simp+

subsection \<open>C9: the forecast horizon\<close>

text \<open>
  C9: for a current month with a trajectory, \<open>latest\<close> being its point with the most recent
  snapshot (the first one, should several points have that snapshot date), \<open>getForecast\<close>
  reports the month with the raw and weighted values of \<open>latest\<close> and its days to close;
  when these are more than 89 the forecast is \<open>null\<close> and the forecast trajectory empty;
  when they are at most 89 (in particular from 0 to 89) the forecast is the weighted value
  of \<open>latest\<close> times the product of \<open>1 + rate\<close> over the days below, and the forecast
  trajectory has one point for each of these days, from the highest down to 0; at 0 days
  the forecast is the weighted value of \<open>latest\<close> itself and the forecast trajectory is
  empty.
\<close>

theorem C9_forecast_horizon:
  assumes "i < length (currentMonths s)"
    and "map_of (aggregatedDataByMonth s) (currentMonths s ! i) = Some points"
    and "k < length points"
    and "\<forall>j < length points. as_snapshotDate (points ! j) \<le> as_snapshotDate (points ! k)"
    and "\<forall>j < k. as_snapshotDate (points ! j) < as_snapshotDate (points ! k)"
    and "latest = points ! k"
    and "r = getForecast rt s ! i"
  shows "month r = currentMonths s ! i
     \<and> currentRawValue r = rawPipeline latest
     \<and> currentWeightedValue r = weightedPipeline latest
     \<and> daysToClose r = as_daysBeforeClose latest
     \<and> (as_daysBeforeClose latest > 89 \<longrightarrow> forecast r = None \<and> forecastTrajectory r = [])
     \<and> (as_daysBeforeClose latest \<le> 89 \<longrightarrow>
           forecast r = Some (weightedPipeline latest
                              * (\<Prod>d = 0..as_daysBeforeClose latest - 1.
                                   1 + rateFor (forecastGrowthRates s) d))
           \<and> map tp_daysBeforeClose (forecastTrajectory r)
               = rev [0..as_daysBeforeClose latest - 1])
     \<and> (as_daysBeforeClose latest = 0 \<longrightarrow>
           forecast r = Some (weightedPipeline latest) \<and> forecastTrajectory r = [])"
proof -
  from assms(3) obtain p ps where ps: "points = p # ps" by (cases points) auto
  have l: "latest = reduce1 later p ps"
    using reduce1_later [of k p ps] assms(3-6) ps by simp
  have r: "r = forecastMonth rt s (currentMonths s ! i)"
    using assms(1,7) by (simp add: getForecast_def)
  have m: "map_of (aggregatedDataByMonth s) (currentMonths s ! i) = Some (p # ps)"
    using assms(2) ps by simp
  note f = forecastMonth_latest [OF m l r]
  moreover have "forecast r = Some (weightedPipeline latest) \<and> forecastTrajectory r = []"
    if "as_daysBeforeClose latest = 0"
    using f that by simp
  ultimately show ?thesis by blast
qed

text \<open>With the rates 3/16 for day 1 and 1/4 for day 0: a month with points 95 and 2 days
  before close, weighted 100 and 64, is reported at 2 days with the value 64 and the
  forecast 64 * 19/16 * 5/4 = 95; a month with points 120 and 95 days before close is
  reported at 95 days with the value 100 and no forecast; a month with points 1 and 0 days
  before close, weighted 90 and 250, has the forecast 250.\<close>

theorem C9_forecast_horizon_witness:
  "forecast (getForecast example_runtime
       (current_month_analyzer [snapshot_at 95 100, snapshot_at 2 64]) ! 0) = Some 95
   \<and> currentWeightedValue (getForecast example_runtime
       (current_month_analyzer [snapshot_at 95 100, snapshot_at 2 64]) ! 0) = 64
   \<and> daysToClose (getForecast example_runtime
       (current_month_analyzer [snapshot_at 95 100, snapshot_at 2 64]) ! 0) = 2
   \<and> map tp_daysBeforeClose (forecastTrajectory (getForecast example_runtime
       (current_month_analyzer [snapshot_at 95 100, snapshot_at 2 64]) ! 0)) = [1, 0]
   \<and> forecast (getForecast example_runtime
       (current_month_analyzer [snapshot_at 120 80, snapshot_at 95 100]) ! 0) = None
   \<and> forecastTrajectory (getForecast example_runtime
       (current_month_analyzer [snapshot_at 120 80, snapshot_at 95 100]) ! 0) = []
   \<and> currentWeightedValue (getForecast example_runtime
       (current_month_analyzer [snapshot_at 120 80, snapshot_at 95 100]) ! 0) = 100
   \<and> daysToClose (getForecast example_runtime
       (current_month_analyzer [snapshot_at 120 80, snapshot_at 95 100]) ! 0) = 95
   \<and> forecast (getForecast example_runtime
       (current_month_analyzer [snapshot_at 1 90, snapshot_at 0 250]) ! 0) = Some 250
   \<and> forecastTrajectory (getForecast example_runtime
       (current_month_analyzer [snapshot_at 1 90, snapshot_at 0 250]) ! 0) = []"
proof -
  have a: "map_of (aggregatedDataByMonth (current_month_analyzer qs))
             (currentMonths (current_month_analyzer qs) ! 0) = Some qs" for qs
    by (simp add: current_month_analyzer_def)
  have l: "0 < length (currentMonths (current_month_analyzer qs))" for qs
    by (simp add: current_month_analyzer_def)
  have c: "forecastGrowthRates (current_month_analyzer qs) = example_curve" for qs
    by (simp add: current_month_analyzer_def curve_analyzer_def)
  have k: "1 < length [snapshot_at d w, snapshot_at e v]" for d w e v
    by simp
  have g: "\<forall>j < length [snapshot_at d w, snapshot_at e v].
             as_snapshotDate ([snapshot_at d w, snapshot_at e v] ! j)
               \<le> as_snapshotDate ([snapshot_at d w, snapshot_at e v] ! 1)"
    if "e < d" for d w e v
    using that by (simp add: snapshot_at_def less_Suc_eq)
  have f: "\<forall>j < 1. as_snapshotDate ([snapshot_at d w, snapshot_at e v] ! j)
               < as_snapshotDate ([snapshot_at d w, snapshot_at e v] ! 1)"
    if "e < d" for d w e v
    using that by (simp add: snapshot_at_def)
  have p: "(\<Prod>d = 0..(1::int). 1 + rateFor example_curve d) = 95 / 64"
  proof -
    have "{0..(1::int)} = {0, 1}" by auto
    then show ?thesis by (simp add: example_rates)
  qed
  have u: "rev [0..(1::int)] = [1, 0]"
    by (simp add: upto.simps)
  have x: "(2::int) < 95" "(95::int) < 120" "(0::int) < 1"
    by simp_all
  from C9_forecast_horizon [where rt = example_runtime, OF l a k g [OF x(1)] f [OF x(1)] refl refl,
      of 100 64]
    C9_forecast_horizon [where rt = example_runtime, OF l a k g [OF x(2)] f [OF x(2)] refl refl,
      of 80 100]
    C9_forecast_horizon [where rt = example_runtime, OF l a k g [OF x(3)] f [OF x(3)] refl refl,
      of 90 250]
  show ?thesis
    by (simp add: snapshot_at_def c p u)
qed

section \<open>Similar months\<close>

lemma similarityAt_Some:
  assumes "similarityAt cur hist d = Some sp"
  shows "days_before sp = d \<and> historical_value sp \<noteq> 0
     \<and> pct_difference sp = ((current_value sp - historical_value sp) / historical_value sp) * 100"
  using assms by (auto simp: similarityAt_def Let_def split: option.splits if_splits)

lemma set_map_filter: "set (List.map_filter f xs) = {y. \<exists>x \<in> set xs. f x = Some y}"
  by (induction xs) (auto split: option.splits)

subsection \<open>C10: no percent difference against a zero value\<close>

text \<open>
  C10: every similarity point that \<open>calculateTrajectorySimilarity\<close> returns has a nonzero
  historical value, against which its percent difference is computed; and a comparison
  day at which both trajectories have a point within the tolerance of 3 days, the
  historical one with weighted value 0, is the day of none of the returned points.
\<close>

theorem C10_no_zero_divisor:
  "(\<forall>sp \<in> set (calculateTrajectorySimilarity cur hist days).
       historical_value sp \<noteq> 0
       \<and> pct_difference sp
           = ((current_value sp - historical_value sp) / historical_value sp) * 100)
   \<and> (\<forall>d cp hp. getTrajectoryAtDaysBefore (Some cur) d 3 = Some cp
          \<longrightarrow> getTrajectoryAtDaysBefore (Some hist) d 3 = Some hp
          \<longrightarrow> weightedPipeline hp = 0
          \<longrightarrow> d \<notin> days_before ` set (calculateTrajectorySimilarity cur hist days))"
proof (intro conjI ballI allI impI)
  fix sp assume "sp \<in> set (calculateTrajectorySimilarity cur hist days)"
  then obtain d where d: "similarityAt cur hist d = Some sp"
    by (auto simp: calculateTrajectorySimilarity_def set_map_filter)
  from similarityAt_Some [OF d] show "historical_value sp \<noteq> 0" by simp
  from similarityAt_Some [OF d]
  show "pct_difference sp = ((current_value sp - historical_value sp) / historical_value sp) * 100"
    by simp
next
  fix d cp hp
  assume c: "getTrajectoryAtDaysBefore (Some cur) d 3 = Some cp"
    and h: "getTrajectoryAtDaysBefore (Some hist) d 3 = Some hp"
    and z: "weightedPipeline hp = 0"
  show "d \<notin> days_before ` set (calculateTrajectorySimilarity cur hist days)"
  proof
    assume "d \<in> days_before ` set (calculateTrajectorySimilarity cur hist days)"
    then obtain sp d' where sp: "similarityAt cur hist d' = Some sp" "days_before sp = d"
      by (auto simp: calculateTrajectorySimilarity_def set_map_filter)
    from similarityAt_Some [OF sp(1)] sp(2) have "d' = d" by simp
    with sp(1) c h z show False by (simp add: similarityAt_def)
  qed
qed

text \<open>A target with value 80 at day 30 against a candidate with value 0 at day 31: no
  point for the comparison day 30; against a candidate with value 40 at day 29 the point of
  day 30 has the percent difference 100.\<close>

theorem C10_no_zero_divisor_witness:
  "getTrajectoryAtDaysBefore (Some [snapshot_at 30 80]) 30 3 = Some (snapshot_at 30 80)
   \<and> getTrajectoryAtDaysBefore (Some [snapshot_at 31 0]) 30 3 = Some (snapshot_at 31 0)
   \<and> weightedPipeline (snapshot_at 31 0) = 0
   \<and> 30 \<notin> days_before ` set (calculateTrajectorySimilarity [snapshot_at 30 80]
                                 [snapshot_at 31 0] [85, 75, 60, 45, 30, 15])
   \<and> map pct_difference (calculateTrajectorySimilarity [snapshot_at 30 80]
                            [snapshot_at 29 40] [85, 75, 60, 45, 30, 15]) = [100]"
proof -
  have c: "getTrajectoryAtDaysBefore (Some [snapshot_at 30 80]) 30 3 = Some (snapshot_at 30 80)"
    and h: "getTrajectoryAtDaysBefore (Some [snapshot_at 31 0]) 30 3 = Some (snapshot_at 31 0)"
    and z: "weightedPipeline (snapshot_at 31 0) = 0"
    by (simp_all add: getTrajectoryAtDaysBefore_def reduce1_def snapshot_at_def)
  have e: "map pct_difference (calculateTrajectorySimilarity [snapshot_at 30 80]
                            [snapshot_at 29 40] [85, 75, 60, 45, 30, 15]) = [100]"
    by code_simp
  from C10_no_zero_divisor [of "[snapshot_at 30 80]" "[snapshot_at 31 0]" "[85, 75, 60, 45, 30, 15]"]
    c h z
  have "30 \<notin> days_before ` set (calculateTrajectorySimilarity [snapshot_at 30 80]
                                 [snapshot_at 31 0] [85, 75, 60, 45, 30, 15])"
    by blast
  with c h z e show ?thesis by blast
qed

section \<open>Goal seek\<close>

subsection \<open>C8: the refusals\<close>

text \<open>
  C8: \<open>latestPoint\<close> being the point of the trajectory with the most recent snapshot, when
  its weighted value is not positive, or its days before close are not positive, or the
  base forecast (its weighted value compounded by the rates of the days below its days
  before close) is not positive, \<open>generateGoalSeekTrajectory\<close> returns the trajectory it was
  given; so it does for the empty trajectory.
\<close>

theorem C8_goal_seek_refusals:
  assumes "originalTrajectory = [] \<or>
     (\<exists>p ps latestPoint. originalTrajectory = p # ps \<and> latestPoint = reduce1 laterPoint p ps
        \<and> (tp_weightedAmount latestPoint \<le> 0 \<or> tp_daysBeforeClose latestPoint \<le> 0
           \<or> baseForecastOf (forecastGrowthRates s) (tp_weightedAmount latestPoint)
                (tp_daysBeforeClose latestPoint) \<le> 0))"
  shows "generateGoalSeekTrajectory s originalTrajectory goalValue = Some originalTrajectory"
  using assms by (auto simp: generateGoalSeekTrajectory_def Let_def)

text \<open>A latest point with weighted value 0 at 17 days, and one with value 100 at 0 days:
  both trajectories come back as they are, for the goal 250.\<close>

theorem C8_goal_seek_refusals_witness:
  "generateGoalSeekTrajectory new_analyzer [point_at 20 50, point_at 17 0] 250
     = Some [point_at 20 50, point_at 17 0]
   \<and> generateGoalSeekTrajectory new_analyzer [point_at 1 90, point_at 0 100] 250
     = Some [point_at 1 90, point_at 0 100]"
proof -
  have a: "reduce1 laterPoint (point_at 20 50) [point_at 17 0] = point_at 17 0"
    and b: "reduce1 laterPoint (point_at 1 90) [point_at 0 100] = point_at 0 100"
    by (simp_all add: reduce1_def laterPoint_def point_at_def toPoint_def snapshot_at_def)
  have c: "tp_weightedAmount (point_at 17 0) \<le> 0" and d: "tp_daysBeforeClose (point_at 0 100) \<le> 0"
    by (simp_all add: point_at_def toPoint_def snapshot_at_def)
  show ?thesis
    using C8_goal_seek_refusals [of "[point_at 20 50, point_at 17 0]" new_analyzer 250]
      C8_goal_seek_refusals [of "[point_at 1 90, point_at 0 100]" new_analyzer 250]
      a b c d
    by auto
qed

lemma Math_pow_one: "x > 0 \<Longrightarrow> Math_pow x 1 = Some x"
  by (simp add: Math_pow_def)

lemma example_curve_facts:
  "baseForecastOf example_curve 100 1 = 125"
  "rateFor example_curve 0 = 1 / 4"
  "daysDown 1 = [0]"
  by code_simp+

lemma growing_rates:
  "fold (addMonthRates (aggregatedDataByMonth growing_analyzer)) [''2025-03''] Map.empty
   = [2 \<mapsto> [1 / 4], 1 \<mapsto> [1 / 4], 0 \<mapsto> [1 / 4]]"
  by (simp add: growing_analyzer_def new_analyzer_def addMonthRates_def pairRates_def
      snapshot_at_def Math_pow_one pushRate_def ratesOn_def Let_def)

lemma growing_median:
  "medianRate [2 \<mapsto> [1 / 4], 1 \<mapsto> [1 / 4], 0 \<mapsto> [1 / 4]] d
   = \<lparr>daysBefore = d, rate = (if d \<le> 2 then 0.25 else 0)\<rparr>" if "0 \<le> d"
proof -
  from that consider "d = 0" | "d = 1" | "d = 2" | "d > 2" by linarith
  then show ?thesis
    by cases (simp_all add: medianRate_def median_def)
qed

lemma growing_curve:
  "snd (calculateGrowthRates [''2025-03''] growing_analyzer) = example_curve"
proof -
  let ?f = "\<lambda>d. \<lparr>daysBefore = d, rate = (if d \<le> 2 then 0.25 else 0 :: real)\<rparr>"
  have "map (medianRate [2 \<mapsto> [1 / 4], 1 \<mapsto> [1 / 4], 0 \<mapsto> [1 / 4]]) [0..89] = map ?f [0..89]"
    by (rule map_cong) (simp_all add: growing_median)
  moreover have "sort_key daysBefore (map ?f [0..89]) = map ?f [0..89]"
    by (rule sort_key_id_if_sorted) (simp add: comp_def)
  ultimately have "medianRatesOf (aggregatedDataByMonth growing_analyzer) [''2025-03'']
      = map ?f [0..89]"
    by (simp only: medianRatesOf_def growing_rates Let_def)
  then show ?thesis
    by (simp add: calculateGrowthRates_def example_curve_def Let_def)
qed

subsection \<open>C3: the goal-seek round trip\<close>

text \<open>
  C3 says that the projection with \<open>requiredDailyLift\<close> ends at the goal within a relative
  tolerance of \<open>1e-6\<close>. The lift is computed so that compounding the base forecast by
  \<open>1 + lift\<close> a day reaches the goal, but the projection adds it to each day's base rate:
  a day grows by \<open>1 + rate + lift\<close> and not by \<open>(1 + rate) * (1 + lift)\<close>. The theorem
  evaluates \<open>generateGoalSeekTrajectory\<close> with the smoothed curve learned from a month that
  grew by a quarter on each of its last three days (the rate of day 0 is 0.25), a latest
  point with the weighted value 100 one day before close, and the goal 250: the base
  forecast is 125, the required total growth 2, the lift 1, and the projected value at day 0
  is \<open>100 * (1 + 0.25 + 1) = 225\<close>, a tenth below the goal. Every number of the example is a
  binary fraction, so that the floating-point computation gives the same values.
\<close>

theorem C3_goal_seek_misses_goal:
  "snd (calculateGrowthRates [''2025-03''] growing_analyzer) = forecastGrowthRates curve_analyzer
   \<and> baseForecastOf (forecastGrowthRates curve_analyzer) 100 1 = 125
   \<and> generateGoalSeekTrajectory curve_analyzer [point_at 1 100] 250
     = Some [point_at 1 100,
             \<lparr>tp_snapshotDate = tp_snapshotDate (point_at 1 100) + msPerDay,
              tp_daysBeforeClose = 0, tp_weightedAmount = 225, tp_rawAmount = 0\<rparr>]
   \<and> \<bar>225 - 250\<bar> > (1 / 1000000 :: real) * 250"
proof -
  have f: "forecastGrowthRates curve_analyzer = example_curve"
    by (simp add: curve_analyzer_def)
  have p: "tp_weightedAmount (point_at 1 100) = 100" "tp_daysBeforeClose (point_at 1 100) = 1"
    by (simp_all add: point_at_def toPoint_def snapshot_at_def)
  show ?thesis
    by (simp add: generateGoalSeekTrajectory_def reduce1_def f p example_curve_facts
        Math_pow_one goalSeekDay_def Let_def growing_curve)
qed

section \<open>The growth-rate model\<close>

text \<open>Every step of the accumulation adds rates to the days' lists, the same whatever
  the lists hold already: the rates of a day after a step are those before it and those
  the step attributes to the day from nothing.\<close>

lemma pushRate_adds:
  "mset (ratesOn (pushRate g day dr) d)
     = mset (ratesOn dr d) + mset (ratesOn (pushRate g day Map.empty) d)"
  by (simp add: pushRate_def ratesOn_def)

lemma fold_adds:
  assumes "\<And>x dr. mset (ratesOn (f x dr) d) = mset (ratesOn dr d) + mset (ratesOn (f x Map.empty) d)"
  shows "mset (ratesOn (fold f xs dr) d)
     = mset (ratesOn dr d) + (\<Sum>x\<leftarrow>xs. mset (ratesOn (f x Map.empty) d))"
proof (induction xs arbitrary: dr)
  case Nil
  then show ?case by simp
next
  case (Cons x xs)
  have "mset (ratesOn (fold f (x # xs) dr) d) = mset (ratesOn (fold f xs (f x dr)) d)"
    by simp
  also have "\<dots> = mset (ratesOn (f x dr) d) + (\<Sum>y\<leftarrow>xs. mset (ratesOn (f y Map.empty) d))"
    by (rule Cons.IH)
  also have "mset (ratesOn (f x dr) d) = mset (ratesOn dr d) + mset (ratesOn (f x Map.empty) d)"
    by (rule assms)
  finally show ?case by (simp add: ac_simps)
qed

lemma fold_adds_empty:
  assumes "\<And>x dr. mset (ratesOn (f x dr) d) = mset (ratesOn dr d) + mset (ratesOn (f x Map.empty) d)"
  shows "mset (ratesOn (fold f xs dr) d)
     = mset (ratesOn dr d) + mset (ratesOn (fold f xs Map.empty) d)"
  using fold_adds [of f d xs dr, OF assms] fold_adds [of f d xs Map.empty, OF assms]
  by (simp add: ratesOn_def)

lemma pairRates_cases:
  "(\<forall>dr. pairRates p c dr = dr)
   \<or> (\<exists>g a ks. \<forall>dr. pairRates p c dr = fold (\<lambda>k. pushRate g (a + k)) ks dr)"
proof (cases "Math_pow (weightedPipeline c / weightedPipeline p)
                  (1 / real_of_int (as_daysBeforeClose p - as_daysBeforeClose c))")
  case None
  then show ?thesis by (simp add: pairRates_def Let_def)
next
  case (Some x)
  show ?thesis
  proof (cases "as_daysBeforeClose p - as_daysBeforeClose c > 0
        \<and> as_daysBeforeClose p - as_daysBeforeClose c \<le> 3 \<and> weightedPipeline p > 0
        \<and> x - 1 > - 0.5 \<and> x - 1 < 0.5")
    case True
    with Some have "\<forall>dr. pairRates p c dr
        = fold (\<lambda>k. pushRate (x - 1) (as_daysBeforeClose c + k))
            [0..as_daysBeforeClose p - as_daysBeforeClose c - 1] dr"
      by (simp add: pairRates_def Let_def)
    then show ?thesis by blast
  next
    case False
    with Some have "\<forall>dr. pairRates p c dr = dr"
      by (auto simp: pairRates_def Let_def)
    then show ?thesis by blast
  qed
qed

lemma pairRates_adds:
  "mset (ratesOn (pairRates p c dr) d)
     = mset (ratesOn dr d) + mset (ratesOn (pairRates p c Map.empty) d)"
proof -
  have f: "mset (ratesOn (fold (\<lambda>k. pushRate g (a + k)) ks dr) d)
     = mset (ratesOn dr d) + mset (ratesOn (fold (\<lambda>k. pushRate g (a + k)) ks Map.empty) d)"
    for g a ks
    by (rule fold_adds_empty) (rule pushRate_adds)
  have e: "mset (ratesOn Map.empty d) = {#}"
    by (simp add: ratesOn_def)
  from pairRates_cases [of p c] show ?thesis
  proof
    assume "\<forall>dr. pairRates p c dr = dr"
    then show ?thesis by (simp add: e)
  next
    assume "\<exists>g a ks. \<forall>dr. pairRates p c dr = fold (\<lambda>k. pushRate g (a + k)) ks dr"
    then obtain g a ks where "\<forall>dr. pairRates p c dr = fold (\<lambda>k. pushRate g (a + k)) ks dr"
      by blast
    then show ?thesis by (simp add: f)
  qed
qed

lemma monthRates_adds:
  "mset (ratesOn (monthRates ps dr) d)
     = mset (ratesOn dr d) + mset (ratesOn (monthRates ps Map.empty) d)"
proof (induction ps arbitrary: dr rule: induct_list012)
  case 1
  then show ?case by (simp add: ratesOn_def)
next
  case (2 p)
  then show ?case by (simp add: ratesOn_def)
next
  case (3 previous current rest)
  have "mset (ratesOn (monthRates (previous # current # rest) dr) d)
        = mset (ratesOn (pairRates previous current dr) d)
          + mset (ratesOn (monthRates (current # rest) Map.empty) d)"
    using "3.IH"(2) [of "pairRates previous current dr"] by simp
  moreover have "mset (ratesOn (monthRates (previous # current # rest) Map.empty) d)
        = mset (ratesOn (pairRates previous current Map.empty) d)
          + mset (ratesOn (monthRates (current # rest) Map.empty) d)"
    using "3.IH"(2) [of "pairRates previous current Map.empty"] by simp
  ultimately show ?case
    using pairRates_adds [of previous current dr d] by (simp add: ac_simps)
qed

lemma addMonthRates_adds:
  "mset (ratesOn (addMonthRates agg m dr) d)
     = mset (ratesOn dr d) + mset (ratesOn (addMonthRates agg m Map.empty) d)"
proof (cases "map_of agg m")
  case None
  then show ?thesis by (simp add: addMonthRates_def ratesOn_def)
next
  case (Some monthData)
  then show ?thesis using monthRates_adds [of monthData dr d] by (simp add: addMonthRates_def)
qed

lemma rates_of_months:
  "mset (ratesOn (fold (addMonthRates agg) months Map.empty) d)
     = (\<Sum>m\<in>#mset months. mset (ratesOn (addMonthRates agg m Map.empty) d))"
proof -
  have "mset (ratesOn (fold (addMonthRates agg) months Map.empty) d)
     = mset (ratesOn Map.empty d)
       + (\<Sum>m\<leftarrow>months. mset (ratesOn (addMonthRates agg m Map.empty) d))"
    by (rule fold_adds) (rule addMonthRates_adds)
  also have "(\<Sum>m\<leftarrow>months. mset (ratesOn (addMonthRates agg m Map.empty) d))
     = (\<Sum>m\<in>#mset months. mset (ratesOn (addMonthRates agg m Map.empty) d))"
    by (induction months) simp_all
  finally show ?thesis by (simp add: ratesOn_def)
qed

lemma median_mset:
  assumes "mset xs = mset ys"
  shows "median xs = median ys"
proof -
  have "sort xs = sort ys"
    by (rule properties_for_sort) (simp_all add: assms)
  then show ?thesis by (simp add: median_def)
qed

lemma medianRate_mset:
  assumes "mset (ratesOn dr d) = mset (ratesOn dr' d)"
  shows "medianRate dr d = medianRate dr' d"
proof -
  have m: "medianRate x d = \<lparr>daysBefore = d, rate = (if ratesOn x d = [] then 0 else median (ratesOn x d))\<rparr>"
    for x
    by (simp add: medianRate_def ratesOn_def split: option.split)
  from assms have "length (ratesOn dr d) = length (ratesOn dr' d)"
    by (rule mset_eq_length)
  then have "(ratesOn dr d = []) = (ratesOn dr' d = [])"
    by (simp only: length_0_conv [symmetric])
  with median_mset [OF assms] show ?thesis by (simp add: m)
qed

lemma medianRatesOf_mset:
  assumes "mset months = mset months'"
  shows "medianRatesOf agg months = medianRatesOf agg months'"
proof -
  have "medianRate (fold (addMonthRates agg) months Map.empty) d
        = medianRate (fold (addMonthRates agg) months' Map.empty) d" for d
    by (rule medianRate_mset) (simp add: rates_of_months assms)
  then have "medianRate (fold (addMonthRates agg) months Map.empty)
        = medianRate (fold (addMonthRates agg) months' Map.empty)"
    by (rule ext)
  then show ?thesis by (simp add: medianRatesOf_def)
qed

subsection \<open>C7: the order of the training months\<close>

text \<open>
  C7: \<open>calculateGrowthRates\<close> returns the same smoothed curve and stores the same median
  curve for two lists of training months that are permutations of each other (the same
  months as often, in any order), on analyzers that agree on the aggregated trajectories
  and may differ in everything else, such as the curves a previous call has stored; the
  same holds for the copy of the method in \<open>BacktestAnalyzer\<close>.
\<close>

theorem C7_growth_rates_order_invariant:
  assumes "mset months = mset months'"
    and "aggregatedDataByMonth s = aggregatedDataByMonth s'"
  shows "snd (calculateGrowthRates months s) = snd (calculateGrowthRates months' s')
     \<and> medianGrowthRates (fst (calculateGrowthRates months s))
         = medianGrowthRates (fst (calculateGrowthRates months' s'))
     \<and> bt_calculateGrowthRates b months = bt_calculateGrowthRates b months'"
proof -
  have m: "medianRatesOf (aggregatedDataByMonth s) months
           = medianRatesOf (aggregatedDataByMonth s') months'"
    using medianRatesOf_mset [OF assms(1)] assms(2) by simp
  have b: "medianRatesOf (bt_aggregatedDataByMonth b) months
           = medianRatesOf (bt_aggregatedDataByMonth b) months'"
    by (rule medianRatesOf_mset [OF assms(1)])
  show ?thesis
    by (simp add: calculateGrowthRates_def bt_calculateGrowthRates_def Let_def m b)
qed

text \<open>February then March on the two-month analyzer, against March then February on the
  same analyzer after it has stored other curves.\<close>

theorem C7_growth_rates_order_invariant_witness:
  "snd (calculateGrowthRates [''2025-02'', ''2025-03''] two_month_analyzer)
     = snd (calculateGrowthRates [''2025-03'', ''2025-02'']
              (two_month_analyzer\<lparr>forecastGrowthRates := example_curve,
                                   medianGrowthRates := example_curve\<rparr>))
   \<and> medianGrowthRates (fst (calculateGrowthRates [''2025-02'', ''2025-03''] two_month_analyzer))
     = medianGrowthRates (fst (calculateGrowthRates [''2025-03'', ''2025-02'']
              (two_month_analyzer\<lparr>forecastGrowthRates := example_curve,
                                   medianGrowthRates := example_curve\<rparr>)))"
  using C7_growth_rates_order_invariant
    [of "[''2025-02'', ''2025-03'']" "[''2025-03'', ''2025-02'']" two_month_analyzer
      "two_month_analyzer\<lparr>forecastGrowthRates := example_curve,
                           medianGrowthRates := example_curve\<rparr>"]
  by simp

section \<open>The backtest\<close>

lemma findIndex_Some:
  "findIndex P xs = Some k \<Longrightarrow> k < length xs \<and> P (xs ! k) \<and> (\<forall>j<k. \<not> P (xs ! j))"
proof (induction xs arbitrary: k)
  case Nil
  then show ?case by simp
next
  case (Cons x xs)
  show ?case
  proof (cases "P x")
    case True
    with Cons.prems show ?thesis by simp
  next
    case False
    with Cons.prems obtain k' where k': "findIndex P xs = Some k'" "k = Suc k'"
      by auto
    from Cons.IH [OF k'(1)] False k'(2) show ?thesis
      by (auto simp: nth_Cons split: nat.splits)
  qed
qed

lemma slice_three:
  assumes "3 \<le> i" and "i \<le> length xs"
  shows "slice xs (int i - 3) (int i) = [xs ! (i - 3), xs ! (i - 2), xs ! (i - 1)]"
proof -
  obtain j where j: "i = j + 3" using assms(1) by (metis add.commute le_Suc_ex)
  have "take 3 (drop j xs) = [xs ! j, xs ! (j + 1), xs ! (j + 2)]"
    using assms(2) j
    by (simp add: numeral_3_eq_3 take_Suc_conv_app_nth Cons_nth_drop_Suc [symmetric])
  then show ?thesis using assms j
    by (simp add: slice_def Let_def nat_diff_distrib')
qed

lemma map_map_filter:
  assumes "\<And>x. x \<in> set xs \<Longrightarrow> (case f x of None \<Rightarrow> \<not> P x | Some y \<Rightarrow> P x \<and> g y = h x)"
  shows "map g (List.map_filter f xs) = map h (filter P xs)"
  using assms
proof (induction xs)
  case Nil
  then show ?case by simp
next
  case (Cons x xs)
  from Cons.prems [of x] Cons.IH Cons.prems show ?case
    by (cases "f x") auto
qed

lemma backtestMonth_eq:
  assumes "3 \<le> i" and "i < length (bt_allHistoricalMonths b)" and "hist = bt_allHistoricalMonths b"
  shows "case backtestMonth b i of
           None \<Rightarrow> \<not> (case map_of (bt_actualClosingValues b) (hist ! i) of
                         None \<Rightarrow> False | Some v \<Rightarrow> weighted v \<noteq> 0)
         | Some r \<Rightarrow> (case map_of (bt_actualClosingValues b) (hist ! i) of
                         None \<Rightarrow> False | Some v \<Rightarrow> weighted v \<noteq> 0)
                      \<and> (fst r, fst (snd r)) = (hist ! i, [hist ! (i - 3), hist ! (i - 2), hist ! (i - 1)])"
  using assms slice_three [of i "bt_allHistoricalMonths b"]
  by (auto simp: backtestMonth_def Let_def split: option.splits)

lemma backtest_from_february_months:
  "bt_allHistoricalMonths backtest_from_february
     = [''2025-02'', ''2025-03'', ''2025-04'', ''2025-05'']"
  by code_simp

lemma backtest_from_january_months:
  "bt_allHistoricalMonths backtest_from_january
     = [''2025-01'', ''2025-02'', ''2025-03'', ''2025-04'', ''2025-05'']"
  by code_simp

subsection \<open>C4: the months that are tested\<close>

text \<open>
  C4 says that every historical month from the April cutoff on that has 3 historical
  months before it is tested, also when the first month from the cutoff on has fewer than
  3 before it. \<open>getBacktestResults\<close> looks up the first historical month from the cutoff
  on and returns no result at all when its index is below 3. With the historical months
  February to May 2025, April has the index 2 and nothing is tested, although May has the
  index 3 and the round of the loop for it (\<open>backtestMonth\<close>) would test it on February,
  March and April.
\<close>

theorem C4_all_or_nothing_counterexample:
  "bt_allHistoricalMonths backtest_from_february
     = [''2025-02'', ''2025-03'', ''2025-04'', ''2025-05'']
   \<and> findIndex (\<lambda>m. str_ge m startMonth) (bt_allHistoricalMonths backtest_from_february)
       = Some 2
   \<and> str_ge ''2025-05'' startMonth
   \<and> backtestMonth backtest_from_february 3
       = Some (''2025-05'', [''2025-02'', ''2025-03'', ''2025-04''],
               [\<lparr>bt_month = ''2025-05'', bt_daysBefore = 30, prediction = 90, actual = 130\<rparr>,
                \<lparr>bt_month = ''2025-05'', bt_daysBefore = 0, prediction = 130, actual = 130\<rparr>])
   \<and> getDetailedBacktestResults backtest_from_february = []
   \<and> getBacktestResults backtest_from_february = []"
  by code_simp

text \<open>
  C4 as amended: \<open>getBacktestResults\<close> returns no result when no historical month is at
  or after the April cutoff, or when the first such month (index \<open>k\<close> in chronological
  order) has fewer than 3 historical months before it; otherwise it tests every historical
  month from that one on whose actual closing weighted value is not 0, each on the 3
  historical months immediately before it, and returns the results of these months.
\<close>

theorem C4_backtested_months:
  assumes "hist = bt_allHistoricalMonths b"
  shows "case findIndex (\<lambda>m. str_ge m startMonth) hist of
           None \<Rightarrow> getDetailedBacktestResults b = [] \<and> getBacktestResults b = []
         | Some k \<Rightarrow>
             k < length hist \<and> str_ge (hist ! k) startMonth
             \<and> (\<forall>j<k. \<not> str_ge (hist ! j) startMonth)
             \<and> (if k < 3 then getDetailedBacktestResults b = [] \<and> getBacktestResults b = []
                else map (\<lambda>r. (fst r, fst (snd r))) (getDetailedBacktestResults b)
                       = map (\<lambda>i. (hist ! i, [hist ! (i - 3), hist ! (i - 2), hist ! (i - 1)]))
                           (filter (\<lambda>i. case map_of (bt_actualClosingValues b) (hist ! i) of
                                          None \<Rightarrow> False | Some v \<Rightarrow> weighted v \<noteq> 0)
                              [k..<length hist])
                     \<and> getBacktestResults b
                       = concat (map (\<lambda>r. snd (snd r)) (getDetailedBacktestResults b)))"
proof (cases "findIndex (\<lambda>m. str_ge m startMonth) hist")
  case None
  then show ?thesis using assms
    by (simp add: getDetailedBacktestResults_def getBacktestResults_def)
next
  case (Some k)
  note fi = findIndex_Some [OF Some]
  show ?thesis
  proof (cases "k < 3")
    case True
    with Some fi show ?thesis using assms
      by (simp add: getDetailedBacktestResults_def getBacktestResults_def)
  next
    case False
    have "map (\<lambda>r. (fst r, fst (snd r))) (List.map_filter (backtestMonth b) [k..<length hist])
          = map (\<lambda>i. (hist ! i, [hist ! (i - 3), hist ! (i - 2), hist ! (i - 1)]))
              (filter (\<lambda>i. case map_of (bt_actualClosingValues b) (hist ! i) of
                             None \<Rightarrow> False | Some v \<Rightarrow> weighted v \<noteq> 0) [k..<length hist])"
    proof (rule map_map_filter)
      fix i assume "i \<in> set [k..<length hist]"
      with False have "3 \<le> i" "i < length (bt_allHistoricalMonths b)" using assms by auto
      from backtestMonth_eq [OF this assms]
      show "case backtestMonth b i of
              None \<Rightarrow> \<not> (case map_of (bt_actualClosingValues b) (hist ! i) of
                            None \<Rightarrow> False | Some v \<Rightarrow> weighted v \<noteq> 0)
            | Some y \<Rightarrow> (case map_of (bt_actualClosingValues b) (hist ! i) of
                            None \<Rightarrow> False | Some v \<Rightarrow> weighted v \<noteq> 0)
                         \<and> (fst y, fst (snd y))
                           = (hist ! i, [hist ! (i - 3), hist ! (i - 2), hist ! (i - 1)])" .
    qed
    with Some fi False show ?thesis using assms
      by (simp add: getDetailedBacktestResults_def getBacktestResults_def)
  qed
qed

text \<open>With the historical months January to May 2025, April has the index 3: April and
  May are tested, each on the three months before it.\<close>

theorem C4_backtested_months_witness:
  "map (\<lambda>r. (fst r, fst (snd r))) (getDetailedBacktestResults backtest_from_january)
     = [(''2025-04'', [''2025-01'', ''2025-02'', ''2025-03'']),
        (''2025-05'', [''2025-02'', ''2025-03'', ''2025-04''])]"
proof -
  let ?hist = "[''2025-01'', ''2025-02'', ''2025-03'', ''2025-04'', ''2025-05'']"
  have fi: "findIndex (\<lambda>m. str_ge m startMonth) ?hist = Some 3"
    by code_simp
  have rhs: "map (\<lambda>i. (?hist ! i, [?hist ! (i - 3), ?hist ! (i - 2), ?hist ! (i - 1)]))
               (filter (\<lambda>i. case map_of (bt_actualClosingValues backtest_from_january) (?hist ! i) of
                              None \<Rightarrow> False | Some v \<Rightarrow> weighted v \<noteq> 0)
                  [3..<length ?hist])
             = [(''2025-04'', [''2025-01'', ''2025-02'', ''2025-03'']),
                (''2025-05'', [''2025-02'', ''2025-03'', ''2025-04''])]"
    by code_simp
  from C4_backtested_months [of ?hist backtest_from_january] fi rhs
  show ?thesis
    by (simp add: backtest_from_january_months)
qed

subsection \<open>C5: no lookahead\<close>

lemma findIndex_first:
  "k < length xs \<Longrightarrow> P (xs ! k) \<Longrightarrow> (\<forall>j<k. \<not> P (xs ! j)) \<Longrightarrow> findIndex P xs = Some k"
proof (induction xs arbitrary: k)
  case Nil
  then show ?case by simp
next
  case (Cons x xs)
  show ?case
  proof (cases k)
    case 0
    with Cons.prems show ?thesis by simp
  next
    case (Suc k')
    with Cons.prems have "\<not> P x" by auto
    moreover from Suc Cons.prems have "findIndex P xs = Some k'"
      by (intro Cons.IH) auto
    ultimately show ?thesis using Suc by simp
  qed
qed

lemma findIndex_prefix:
  assumes "take (Suc i) xs = take (Suc i) ys" and "k \<le> i"
  shows "findIndex P xs = Some k \<longleftrightarrow> findIndex P ys = Some k"
proof -
  have n: "xs ! j = ys ! j" if "j \<le> i" for j
    using that assms(1) by (metis le_imp_less_Suc nth_take)
  have l: "k < length xs \<longleftrightarrow> k < length ys"
    using assms by (metis length_take min_less_iff_conj not_less_eq_eq nat_less_le le_imp_less_Suc)
  show ?thesis
  proof
    assume "findIndex P xs = Some k"
    from findIndex_Some [OF this] show "findIndex P ys = Some k"
      using n l assms(2) by (intro findIndex_first) auto
  next
    assume "findIndex P ys = Some k"
    from findIndex_Some [OF this] show "findIndex P xs = Some k"
      using n l assms(2) by (intro findIndex_first) auto
  qed
qed


lemma medianRatesOf_cong:
  assumes "\<And>m. m \<in> set months \<Longrightarrow> map_of agg m = map_of agg' m"
  shows "medianRatesOf agg months = medianRatesOf agg' months"
proof -
  have "fold (addMonthRates agg) months Map.empty = fold (addMonthRates agg') months Map.empty"
  proof (rule fold_cong)
    fix m assume "m \<in> set months"
    then show "addMonthRates agg m = addMonthRates agg' m"
      by (intro ext) (simp add: addMonthRates_def assms)
  qed simp_all
  then show ?thesis by (simp add: medianRatesOf_def)
qed

lemma map_map_filter_option:
  "map g (List.map_filter f xs) = List.map_filter (\<lambda>x. map_option g (f x)) xs"
  by (induction xs) (simp_all split: option.split)

lemma predictAt_start_point:
  assumes "getTrajectoryAtDaysBefore md day 3 = getTrajectoryAtDaysBefore md' day 3"
  shows "map_option (\<lambda>x. (bt_month x, bt_daysBefore x, prediction x)) (predictAt rates md tm act day)
   = map_option (\<lambda>x. (bt_month x, bt_daysBefore x, prediction x)) (predictAt rates md' tm act' day)"
  using assms by (simp add: predictAt_def split: option.split)

lemma map_filter_cong:
  assumes "\<And>x. x \<in> set xs \<Longrightarrow> f x = g x"
  shows "List.map_filter f xs = List.map_filter g xs"
  using assms by (induction xs) (auto split: option.split)

lemma backtestMonth_agree:
  assumes i: "3 \<le> i" "i < length H" "i < length H'"
    and H: "H = bt_allHistoricalMonths b" "H' = bt_allHistoricalMonths b'"
    and pre: "take (Suc i) H = take (Suc i) H'"
    and agg: "\<And>j. j < i \<Longrightarrow> i \<le> j + 3 \<Longrightarrow>
          map_of (bt_aggregatedDataByMonth b) (H ! j) = map_of (bt_aggregatedDataByMonth b') (H ! j)"
    and sp: "\<And>day. day \<in> set testPoints \<Longrightarrow>
          getTrajectoryAtDaysBefore (map_of (bt_aggregatedDataByMonth b) (H ! i)) day 3
          = getTrajectoryAtDaysBefore (map_of (bt_aggregatedDataByMonth b') (H ! i)) day 3"
    and act: "map_of (bt_actualClosingValues b) (H ! i) = Some v" "weighted v \<noteq> 0"
      "map_of (bt_actualClosingValues b') (H ! i) = Some v'" "weighted v' \<noteq> 0"
  shows "\<exists>rs rs'. backtestMonth b i = Some (H ! i, [H ! (i - 3), H ! (i - 2), H ! (i - 1)], rs)
       \<and> backtestMonth b' i = Some (H ! i, [H ! (i - 3), H ! (i - 2), H ! (i - 1)], rs')
       \<and> map (\<lambda>x. (bt_month x, bt_daysBefore x, prediction x)) rs
         = map (\<lambda>x. (bt_month x, bt_daysBefore x, prediction x)) rs'"
proof -
  let ?T = "[H ! (i - 3), H ! (i - 2), H ! (i - 1)]"
  have n: "H' ! j = H ! j" if "j \<le> i" for j
    using that pre by (metis le_imp_less_Suc nth_take)
  have s: "slice H (int i - 3) (int i) = ?T"
    using i by (intro slice_three) auto
  have s': "slice H' (int i - 3) (int i) = ?T"
    using i slice_three [of i H'] n by simp
  have ag: "map_of (bt_aggregatedDataByMonth b) m = map_of (bt_aggregatedDataByMonth b') m"
    if "m \<in> set ?T" for m
  proof -
    from that i(1) obtain j where "m = H ! j" "j < i" "i \<le> j + 3"
      by auto
    then show ?thesis using agg by simp
  qed
  have "medianRatesOf (bt_aggregatedDataByMonth b) ?T = medianRatesOf (bt_aggregatedDataByMonth b') ?T"
    by (rule medianRatesOf_cong) (rule ag)
  then have r: "bt_calculateGrowthRates b' ?T = bt_calculateGrowthRates b ?T"
    by (simp only: bt_calculateGrowthRates_def)
  let ?rs = "List.map_filter (predictAt (bt_calculateGrowthRates b ?T)
               (map_of (bt_aggregatedDataByMonth b) (H ! i)) (H ! i) (weighted v)) testPoints"
  let ?rs' = "List.map_filter (predictAt (bt_calculateGrowthRates b ?T)
               (map_of (bt_aggregatedDataByMonth b') (H ! i)) (H ! i) (weighted v')) testPoints"
  have 1: "backtestMonth b i = Some (H ! i, ?T, ?rs)"
    using act H s by (simp add: backtestMonth_def Let_def)
  have 2: "backtestMonth b' i = Some (H ! i, ?T, ?rs')"
    using act H s' n [of i] r by (simp add: backtestMonth_def Let_def)
  have 3: "map (\<lambda>x. (bt_month x, bt_daysBefore x, prediction x)) ?rs
           = map (\<lambda>x. (bt_month x, bt_daysBefore x, prediction x)) ?rs'"
    unfolding map_map_filter_option
    by (rule map_filter_cong) (rule predictAt_start_point, rule sp)
  from 1 2 3 show ?thesis by blast
qed

lemma concat_map_filter:
  "concat (map g (List.map_filter f xs))
   = concat (map (\<lambda>x. case f x of None \<Rightarrow> [] | Some r \<Rightarrow> g r) xs)"
  by (induction xs) (simp_all split: option.split)

lemma backtestMonth_month:
  assumes "backtestMonth b j = Some r" and "x \<in> set (snd (snd r))"
  shows "bt_month x = bt_allHistoricalMonths b ! j"
  using assms
  by (auto simp: backtestMonth_def Let_def set_map_filter predictAt_def
      split: option.splits if_splits)

lemma month_results:
  assumes "distinct H" and "H = bt_allHistoricalMonths b" and "i < length H"
    and "\<And>j. j \<in> set js \<Longrightarrow> j < length H" and "distinct js"
  shows "filter (\<lambda>x. bt_month x = H ! i)
           (concat (map (\<lambda>j. case backtestMonth b j of None \<Rightarrow> [] | Some r \<Rightarrow> snd (snd r)) js))
         = (if i \<in> set js
            then (case backtestMonth b i of None \<Rightarrow> [] | Some r \<Rightarrow> snd (snd r))
            else [])"
  using assms(4,5)
proof (induction js)
  case Nil
  then show ?case by simp
next
  case (Cons j js)
  let ?R = "\<lambda>j. case backtestMonth b j of None \<Rightarrow> [] | Some r \<Rightarrow> snd (snd r)"
  have m: "bt_month x = H ! j" if "x \<in> set (?R j)" for x
  proof (cases "backtestMonth b j")
    case None
    with that show ?thesis by simp
  next
    case (Some r)
    with that have "x \<in> set (snd (snd r))" by simp
    from backtestMonth_month [OF Some this] assms(2) show ?thesis by simp
  qed
  have jl: "j < length H" using Cons.prems(1) by simp
  have IH: "filter (\<lambda>x. bt_month x = H ! i) (concat (map ?R js))
            = (if i \<in> set js then ?R i else [])"
    using Cons.prems by (intro Cons.IH) auto
  show ?case
  proof (cases "j = i")
    case True
    then have "filter (\<lambda>x. bt_month x = H ! i) (?R j) = ?R i"
      using m by (auto simp: filter_id_conv)
    moreover from True Cons.prems(2) have "i \<notin> set js" by simp
    ultimately show ?thesis using IH True by simp
  next
    case False
    then have "H ! j \<noteq> H ! i"
      using assms(1,3) jl by (simp add: nth_eq_iff_index_eq)
    then have "filter (\<lambda>x. bt_month x = H ! i) (?R j) = []"
      using m by (auto simp: filter_empty_conv)
    then show ?thesis using IH False by simp
  qed
qed

lemma getBacktestResults_month:
  assumes "distinct H" and "H = bt_allHistoricalMonths b" and "i < length H"
  shows "filter (\<lambda>x. bt_month x = H ! i) (getBacktestResults b)
         = (case findIndex (\<lambda>m. str_ge m startMonth) H of
              None \<Rightarrow> []
            | Some k \<Rightarrow> if k < 3 \<or> i < k then []
                        else (case backtestMonth b i of None \<Rightarrow> [] | Some r \<Rightarrow> snd (snd r)))"
proof (cases "findIndex (\<lambda>m. str_ge m startMonth) H")
  case None
  then show ?thesis using assms(2) by (simp add: getBacktestResults_def)
next
  case (Some k)
  have "filter (\<lambda>x. bt_month x = H ! i)
           (concat (map (\<lambda>j. case backtestMonth b j of None \<Rightarrow> [] | Some r \<Rightarrow> snd (snd r))
                      [k..<length H]))
         = (if i \<in> set [k..<length H]
            then (case backtestMonth b i of None \<Rightarrow> [] | Some r \<Rightarrow> snd (snd r))
            else [])"
    using assms by (intro month_results) auto
  with Some assms(2,3) show ?thesis
    by (auto simp: getBacktestResults_def concat_map_filter)
qed

lemma backtest_mutated_months:
  "bt_allHistoricalMonths backtest_mutated
     = [''2025-01'', ''2025-02'', ''2025-03'', ''2025-04'', ''2025-05'']"
  by code_simp

text \<open>
  C5: take two backtest analyzers whose chronological lists of historical months (without
  repetition) agree up to and including a month, the test month, at index \<open>i\<close>, whose
  trajectories agree for the historical months before the test month that are at most 3
  places before it, and for which the test month has the same starting point at each of
  the test days; the test month has a nonzero actual closing weighted value in both. The
  analyzers may differ in everything else: the months after the test month, their
  trajectories and closing values, and the closing value of the test month. Then
  \<open>getBacktestResults\<close> returns for the test month the same results in both, up to the
  recorded actual value: the same days before close with the same predictions.
\<close>

theorem C5_no_lookahead:
  assumes H: "H = bt_allHistoricalMonths b" "H' = bt_allHistoricalMonths b'"
    and dist: "distinct H" "distinct H'"
    and i: "i < length H" "i < length H'"
    and pre: "take (Suc i) H = take (Suc i) H'"
    and agg: "\<forall>j. j < i \<and> i \<le> j + 3 \<longrightarrow>
          map_of (bt_aggregatedDataByMonth b) (H ! j) = map_of (bt_aggregatedDataByMonth b') (H ! j)"
    and sp: "\<forall>day \<in> set testPoints.
          getTrajectoryAtDaysBefore (map_of (bt_aggregatedDataByMonth b) (H ! i)) day 3
          = getTrajectoryAtDaysBefore (map_of (bt_aggregatedDataByMonth b') (H ! i)) day 3"
    and act: "map_of (bt_actualClosingValues b) (H ! i) = Some v" "weighted v \<noteq> 0"
      "map_of (bt_actualClosingValues b') (H ! i) = Some v'" "weighted v' \<noteq> 0"
  shows "map (\<lambda>x. (bt_month x, bt_daysBefore x, prediction x))
           (filter (\<lambda>x. bt_month x = H ! i) (getBacktestResults b))
         = map (\<lambda>x. (bt_month x, bt_daysBefore x, prediction x))
           (filter (\<lambda>x. bt_month x = H ! i) (getBacktestResults b'))"
proof -
  let ?P = "\<lambda>m. str_ge m startMonth"
  let ?R = "\<lambda>b. case backtestMonth b i of None \<Rightarrow> [] | Some r \<Rightarrow> snd (snd r)"
  let ?proj = "\<lambda>x. (bt_month x, bt_daysBefore x, prediction x)"
  have n: "H' ! i = H ! i"
    using pre by (metis lessI nth_take)
  have l: "filter (\<lambda>x. bt_month x = H ! i) (getBacktestResults b)
         = (case findIndex ?P H of None \<Rightarrow> []
            | Some k \<Rightarrow> if k < 3 \<or> i < k then [] else ?R b)"
    using dist(1) H(1) i(1) by (rule getBacktestResults_month)
  have r: "filter (\<lambda>x. bt_month x = H ! i) (getBacktestResults b')
         = (case findIndex ?P H' of None \<Rightarrow> []
            | Some k \<Rightarrow> if k < 3 \<or> i < k then [] else ?R b')"
    using getBacktestResults_month [OF dist(2) H(2) i(2)] n by simp
  have same: "findIndex ?P H = Some k \<longleftrightarrow> findIndex ?P H' = Some k" if "k \<le> i" for k
    using pre that by (rule findIndex_prefix)
  show ?thesis
  proof (cases "\<exists>k. findIndex ?P H = Some k \<and> 3 \<le> k \<and> k \<le> i")
    case True
    then obtain k where k: "findIndex ?P H = Some k" "3 \<le> k" "k \<le> i" by blast
    from same [OF k(3)] k(1) have k': "findIndex ?P H' = Some k" by blast
    from k have "3 \<le> i" by simp
    from backtestMonth_agree [OF this i H pre _ _ act] agg sp
    have "map ?proj (?R b) = map ?proj (?R b')" by auto
    with l r k k' show ?thesis by simp
  next
    case False
    then have "filter (\<lambda>x. bt_month x = H ! i) (getBacktestResults b) = []"
      using l by (auto split: option.splits)
    moreover from False same have "\<not> (\<exists>k. findIndex ?P H' = Some k \<and> 3 \<le> k \<and> k \<le> i)"
      by blast
    then have "filter (\<lambda>x. bt_month x = H ! i) (getBacktestResults b') = []"
      using r by (auto split: option.splits)
    ultimately show ?thesis by simp
  qed
qed

text \<open>The months January to May, and the same with the data of May and the closing value
  of April changed: the results for April are the same.\<close>

theorem C5_no_lookahead_witness:
  "map (\<lambda>x. (bt_month x, bt_daysBefore x, prediction x))
     (filter (\<lambda>x. bt_month x = ''2025-04'') (getBacktestResults backtest_from_january))
   = map (\<lambda>x. (bt_month x, bt_daysBefore x, prediction x))
     (filter (\<lambda>x. bt_month x = ''2025-04'') (getBacktestResults backtest_mutated))"
proof -
  let ?H = "[''2025-01'', ''2025-02'', ''2025-03'', ''2025-04'', ''2025-05'']"
  have agg: "\<forall>j. j < 3 \<and> 3 \<le> j + 3 \<longrightarrow>
      map_of (bt_aggregatedDataByMonth backtest_from_january) (?H ! j)
      = map_of (bt_aggregatedDataByMonth backtest_mutated) (?H ! j)"
  proof (intro allI impI)
    fix j :: nat assume "j < 3 \<and> 3 \<le> j + 3"
    then consider "j = 0" | "j = 1" | "j = 2" by linarith
    then show "map_of (bt_aggregatedDataByMonth backtest_from_january) (?H ! j)
      = map_of (bt_aggregatedDataByMonth backtest_mutated) (?H ! j)"
      by cases (simp_all add: backtest_from_january_def backtest_mutated_def
          new_BacktestAnalyzer_def months_from_february_def)
  qed
  have "map_of (bt_aggregatedDataByMonth backtest_from_january) (?H ! 3)
      = map_of (bt_aggregatedDataByMonth backtest_mutated) (?H ! 3)"
    by (simp add: backtest_from_january_def backtest_mutated_def
        new_BacktestAnalyzer_def months_from_february_def)
  then have sp: "\<forall>day \<in> set testPoints.
      getTrajectoryAtDaysBefore
        (map_of (bt_aggregatedDataByMonth backtest_from_january) (?H ! 3)) day 3
      = getTrajectoryAtDaysBefore
        (map_of (bt_aggregatedDataByMonth backtest_mutated) (?H ! 3)) day 3"
    by (simp only: ball_triv simp_thms)
  have a: "map_of (bt_actualClosingValues backtest_from_january) (?H ! 3)
             = Some \<lparr>raw = 120, weighted = 120\<rparr>"
    and a': "map_of (bt_actualClosingValues backtest_mutated) (?H ! 3)
             = Some \<lparr>raw = 125, weighted = 125\<rparr>"
    by (simp_all add: backtest_from_january_def backtest_mutated_def
        new_BacktestAnalyzer_def closings_from_february_def)
  have h: "?H = bt_allHistoricalMonths backtest_from_january"
    and h': "?H = bt_allHistoricalMonths backtest_mutated"
    by (simp_all only: backtest_from_january_months backtest_mutated_months)
  have d: "distinct ?H" and i: "3 < length ?H"
    by simp_all
  have w: "weighted \<lparr>raw = 120, weighted = 120\<rparr> \<noteq> 0"
    and w': "weighted \<lparr>raw = 125, weighted = 125\<rparr> \<noteq> 0"
    by simp_all
  have n: "?H ! 3 = ''2025-04''"
    by simp
  from C5_no_lookahead [OF h h' d d i i refl agg sp a w a' w']
  show ?thesis
    by (simp only: n)
qed

end
